theory Spec2Isabelle
  imports Complex_Main
begin

section \<open>The point-of-sale store\<close>

text \<open>
  The sale routes of \<^verbatim>\<open>src/routes/customers.js\<close>, the stock route of
  \<^verbatim>\<open>src/routes/inventory.js\<close> and the two status triggers of \<^verbatim>\<open>initialdb.sql\<close>,
  as functions on an explicit database value. Timestamps (\<^verbatim>\<open>lastUpdated\<close>,
  \<^verbatim>\<open>updated_at\<close>) are left out.
\<close>

type_synonym uuid = string

subsection \<open>Failing statements\<close>

text \<open>
  A statement sent to the database either fails on a constraint that \<^verbatim>\<open>initialdb.sql\<close>
  declares, on a value the column does not take, or because the backend is not there. The
  last is an input of the model: a \<open>fault\<close> \<open>Some n\<close> lets \<open>n\<close> statements through
  and fails the next one, \<open>None\<close> never fails.
\<close>

datatype error =
  RecordNotFound | UniqueViolation | ForeignKeyViolation | CheckViolation
  | NotNullViolation | InvalidValue | BackendFailure

type_synonym fault = "nat option"

definition tick :: "fault \<Rightarrow> error + fault" where
  "tick f = (case f of None \<Rightarrow> Inr None
                     | Some 0 \<Rightarrow> Inl BackendFailure
                     | Some (Suc n) \<Rightarrow> Inr (Some n))"

datatype 'a response = Success nat 'a | Failure nat string

fun status_code :: "'a response \<Rightarrow> nat" where
  "status_code (Success c _) = c"
| "status_code (Failure c _) = c"

subsection \<open>Numbers\<close>

text \<open>
  The sale route computes amounts as JavaScript Numbers: a finite double, which is a
  rational number, an infinity or \<^verbatim>\<open>NaN\<close>. The columns hold \<^verbatim>\<open>DECIMAL(10,2)\<close> values,
  which are rational numbers, or \<^verbatim>\<open>NULL\<close>. The operations between them are not code of
  the repository: the rounding of double arithmetic, the conversion of a \<^verbatim>\<open>Decimal\<close> read
  from the database into a Number, and what the ORM and the database make of a Number
  written to a decimal or an integer column (a rounded value, \<^verbatim>\<open>NULL\<close>, or an error).
  They are an argument \<open>A\<close> of every function that computes with amounts, and what is
  proved of such a function is proved for every arithmetic.
\<close>

datatype jsnum = NaN | PosInf | NegInf | Fin rat

record arith =
  of_decimal :: "rat \<Rightarrow> jsnum"
  num_add :: "jsnum \<Rightarrow> jsnum \<Rightarrow> jsnum"
  num_sub :: "jsnum \<Rightarrow> jsnum \<Rightarrow> jsnum"
  num_mul :: "jsnum \<Rightarrow> jsnum \<Rightarrow> jsnum"
  num_div :: "jsnum \<Rightarrow> jsnum \<Rightarrow> jsnum"
  num_floor :: "jsnum \<Rightarrow> jsnum"
  to_decimal :: "jsnum \<Rightarrow> error + rat option"
  dec_add :: "rat \<Rightarrow> jsnum \<Rightarrow> error + rat"
  to_int :: "jsnum \<Rightarrow> error + int"

text \<open>A field of the request that is left out is \<^verbatim>\<open>undefined\<close>, which is \<^verbatim>\<open>NaN\<close> in
  arithmetic. The numbers of a request are finite.\<close>

definition toNumber :: "rat option \<Rightarrow> jsnum" where
  "toNumber v = (case v of None \<Rightarrow> NaN | Some x \<Rightarrow> Fin x)"

text \<open>\<^verbatim>\<open>x || 0\<close> on an optional number: \<^verbatim>\<open>undefined\<close> and \<^verbatim>\<open>0\<close> both give \<^verbatim>\<open>0\<close>.\<close>

definition or_zero :: "rat option \<Rightarrow> rat" where
  "or_zero v = (case v of None \<Rightarrow> 0 | Some x \<Rightarrow> (if x = 0 then 0 else x))"

subsection \<open>Tables\<close>

text \<open>
  \<open>p_quantity\<close> is the \<^verbatim>\<open>product.quantity\<close> that the stock route reads and writes; the
  sale routes and the triggers keep stock in the \<^verbatim>\<open>inventory\<close> table, one row for each
  (product, location). A decimal column that may be \<^verbatim>\<open>NULL\<close> is an option.
\<close>

record product =
  p_price :: rat
  p_taxRate :: rat
  p_quantity :: int

record inventory_row =
  inv_productId :: uuid
  inv_location :: string
  inv_quantity :: int

record customer =
  c_loyaltyPoints :: int
  c_totalPurchases :: rat

record sale_item =
  si_productId :: uuid
  si_quantity :: int
  si_unitPrice :: "rat option"
  si_discount :: "rat option"
  si_taxAmount :: "rat option"
  si_totalPrice :: "rat option"

record sale =
  s_customerId :: "uuid option"
  s_userId :: uuid
  s_totalAmount :: rat
  s_taxAmount :: "rat option"
  s_discountAmount :: "rat option"
  s_paymentMethodId :: "uuid option"
  s_paymentStatusId :: "uuid option"
  s_saleStatusId :: "uuid option"
  s_notes :: "string option"
  s_saleItems :: "sale_item list"

record inventory_log =
  log_productId :: uuid
  log_operation :: string
  log_quantity :: int
  log_previousQuantity :: int
  log_newQuantity :: int
  log_reason :: string
  log_userId :: uuid

record db =
  users :: "uuid set"
  products :: "uuid \<rightharpoonup> product"
  inventory :: "inventory_row list"
  customers :: "uuid \<rightharpoonup> customer"
  payment_methods :: "uuid \<rightharpoonup> string"
  payment_statuses :: "uuid \<rightharpoonup> string"
  sale_statuses :: "uuid \<rightharpoonup> string"
  sales :: "uuid \<rightharpoonup> sale"
  inventoryLog :: "inventory_log list"

text \<open>A reference that is \<^verbatim>\<open>NULL\<close> is not checked; one that is given must name a row.\<close>

definition refers :: "('k \<rightharpoonup> 'v) \<Rightarrow> 'k option \<Rightarrow> bool" where
  "refers table k = (case k of None \<Rightarrow> True | Some i \<Rightarrow> table i \<noteq> None)"

subsection \<open>Statements of the sale routes\<close>

definition product_findUnique :: "fault \<Rightarrow> db \<Rightarrow> uuid \<Rightarrow> error + (fault \<times> product option)" where
  "product_findUnique f d pid =
     (case tick f of Inl e \<Rightarrow> Inl e | Inr f' \<Rightarrow> Inr (f', products d pid))"

text \<open>The objects the route hands to \<^verbatim>\<open>prisma.sale.create\<close>: Numbers, not yet column
  values.\<close>

record item_data =
  d_productId :: uuid
  d_quantity :: int
  d_unitPrice :: jsnum
  d_discount :: jsnum
  d_taxAmount :: jsnum
  d_totalPrice :: jsnum

record sale_input =
  in_customerId :: "uuid option"
  in_userId :: uuid
  in_totalAmount :: jsnum
  in_taxAmount :: jsnum
  in_discountAmount :: jsnum
  in_paymentMethodId :: "uuid option"
  in_paymentStatusId :: "uuid option"
  in_saleStatusId :: "uuid option"
  in_notes :: "string option"
  in_saleItems :: "item_data list"

text \<open>
  The row of \<^verbatim>\<open>sale_items\<close> written for one item. The schema uses this table without
  declaring it, so no constraint of its own is attached; each amount is what the column
  receives of the Number.
\<close>

definition store_item :: "arith \<Rightarrow> item_data \<Rightarrow> error + sale_item" where
  "store_item A x =
     (case to_decimal A (d_unitPrice x) of Inl e \<Rightarrow> Inl e | Inr up \<Rightarrow>
      case to_decimal A (d_discount x) of Inl e \<Rightarrow> Inl e | Inr di \<Rightarrow>
      case to_decimal A (d_taxAmount x) of Inl e \<Rightarrow> Inl e | Inr ta \<Rightarrow>
      case to_decimal A (d_totalPrice x) of Inl e \<Rightarrow> Inl e | Inr tp \<Rightarrow>
        Inr \<lparr> si_productId = d_productId x, si_quantity = d_quantity x,
              si_unitPrice = up, si_discount = di, si_taxAmount = ta, si_totalPrice = tp \<rparr>)"

fun store_items :: "arith \<Rightarrow> item_data list \<Rightarrow> error + sale_item list" where
  "store_items A [] = Inr []"
| "store_items A (x # xs) =
     (case store_item A x of
        Inl e \<Rightarrow> Inl e
      | Inr y \<Rightarrow> (case store_items A xs of Inl e \<Rightarrow> Inl e | Inr ys \<Rightarrow> Inr (y # ys)))"

text \<open>
  \<^verbatim>\<open>prisma.sale.create\<close> with its nested sale items, answering the row as stored. Of
  \<^verbatim>\<open>sales\<close>: the primary key, \<^verbatim>\<open>total_amount ... NOT NULL CHECK (total_amount >= 0)\<close> on
  the value the column received, and the references to customers, users, payment methods,
  payment statuses and sale statuses; of the items, the reference to products.
\<close>

definition sale_create ::
  "arith \<Rightarrow> fault \<Rightarrow> db \<Rightarrow> uuid \<Rightarrow> sale_input \<Rightarrow> error + (fault \<times> sale \<times> db)" where
  "sale_create A f d sid inp =
     (case tick f of Inl e \<Rightarrow> Inl e | Inr f' \<Rightarrow>
      case to_decimal A (in_totalAmount inp) of
        Inl e \<Rightarrow> Inl e | Inr None \<Rightarrow> Inl NotNullViolation | Inr (Some amount) \<Rightarrow>
      case to_decimal A (in_taxAmount inp) of Inl e \<Rightarrow> Inl e | Inr tax \<Rightarrow>
      case to_decimal A (in_discountAmount inp) of Inl e \<Rightarrow> Inl e | Inr disc \<Rightarrow>
      case store_items A (in_saleItems inp) of Inl e \<Rightarrow> Inl e | Inr rows \<Rightarrow>
        if sales d sid \<noteq> None then Inl UniqueViolation
        else if amount < 0 then Inl CheckViolation
        else if \<not> refers (customers d) (in_customerId inp) then Inl ForeignKeyViolation
        else if in_userId inp \<notin> users d then Inl ForeignKeyViolation
        else if \<not> refers (payment_methods d) (in_paymentMethodId inp) then Inl ForeignKeyViolation
        else if \<not> refers (payment_statuses d) (in_paymentStatusId inp) then Inl ForeignKeyViolation
        else if \<not> refers (sale_statuses d) (in_saleStatusId inp) then Inl ForeignKeyViolation
        else if (\<exists>i \<in> set rows. products d (si_productId i) = None)
          then Inl ForeignKeyViolation
        else
          (let sale = \<lparr> s_customerId = in_customerId inp,
                         s_userId = in_userId inp,
                         s_totalAmount = amount,
                         s_taxAmount = tax,
                         s_discountAmount = disc,
                         s_paymentMethodId = in_paymentMethodId inp,
                         s_paymentStatusId = in_paymentStatusId inp,
                         s_saleStatusId = in_saleStatusId inp,
                         s_notes = in_notes inp,
                         s_saleItems = rows \<rparr>
           in Inr (f', sale, d\<lparr>sales := (sales d)(sid \<mapsto> sale)\<rparr>)))"

text \<open>
  \<^verbatim>\<open>prisma.inventory.updateMany({ where: { productId }, data: { quantity: { decrement } } })\<close>:
  one \<^verbatim>\<open>UPDATE\<close> over every row of the product, rejected as a whole when a row it
  writes breaks \<^verbatim>\<open>CHECK (quantity >= 0)\<close>.
\<close>

definition decrement_row :: "uuid \<Rightarrow> int \<Rightarrow> inventory_row \<Rightarrow> inventory_row" where
  "decrement_row pid n r =
     (if inv_productId r = pid then r\<lparr>inv_quantity := inv_quantity r - n\<rparr> else r)"

definition inventory_updateMany :: "fault \<Rightarrow> db \<Rightarrow> uuid \<Rightarrow> int \<Rightarrow> error + (fault \<times> db)" where
  "inventory_updateMany f d pid n =
     (case tick f of Inl e \<Rightarrow> Inl e | Inr f' \<Rightarrow>
        let rows = map (decrement_row pid n) (inventory d) in
        if (\<exists>r \<in> set rows. inv_productId r = pid \<and> inv_quantity r < 0)
        then Inl CheckViolation
        else Inr (f', d\<lparr>inventory := rows\<rparr>))"

text \<open>\<^verbatim>\<open>prisma.customer.update\<close> with the two increments: the new \<^verbatim>\<open>total_purchases\<close> is
  what the database makes of the old one and the Number, the points are the integer the
  ORM takes the Number for.\<close>

definition customer_update ::
  "arith \<Rightarrow> fault \<Rightarrow> db \<Rightarrow> uuid \<Rightarrow> jsnum \<Rightarrow> jsnum \<Rightarrow> error + (fault \<times> db)" where
  "customer_update A f d cid amount points =
     (case tick f of Inl e \<Rightarrow> Inl e | Inr f' \<Rightarrow>
        (case customers d cid of
           None \<Rightarrow> Inl RecordNotFound
         | Some c \<Rightarrow>
             (case dec_add A (c_totalPurchases c) amount of Inl e \<Rightarrow> Inl e | Inr tp \<Rightarrow>
              case to_int A points of Inl e \<Rightarrow> Inl e | Inr n \<Rightarrow>
                Inr (f', d\<lparr>customers := (customers d)(cid \<mapsto>
                       c\<lparr>c_totalPurchases := tp,
                         c_loyaltyPoints := c_loyaltyPoints c + n\<rparr>)\<rparr>))))"

subsection \<open>Create sale\<close>

record sale_line =
  productId :: uuid
  quantity :: int
  unitPrice :: rat
  discount :: "rat option"
  taxRate :: "rat option"

record sale_request =
  customerId :: "uuid option"
  items :: "sale_line list"
  paymentMethodId :: "uuid option"
  paymentStatusId :: "uuid option"
  saleStatusId :: "uuid option"
  discountAmount :: "rat option"
  r_notes :: "string option"

datatype totals_result = Thrown error | NotFound uuid | Totals fault jsnum jsnum

text \<open>The loop of lines 482 to 496: it reads the catalog and stops at a product it does
  not find.\<close>

fun totals_loop ::
  "arith \<Rightarrow> fault \<Rightarrow> db \<Rightarrow> sale_line list \<Rightarrow> jsnum \<Rightarrow> jsnum \<Rightarrow> totals_result" where
  "totals_loop A f d [] subtotal taxAmount = Totals f subtotal taxAmount"
| "totals_loop A f d (item # rest) subtotal taxAmount =
     (case product_findUnique f d (productId item) of
        Inl e \<Rightarrow> Thrown e
      | Inr (f', None) \<Rightarrow> NotFound (productId item)
      | Inr (f', Some product) \<Rightarrow>
          (let itemTotal = num_mul A (of_decimal A (p_price product))
                                     (Fin (of_int (quantity item)));
               itemTax = num_mul A itemTotal
                           (num_div A (of_decimal A (p_taxRate product)) (Fin 100))
           in totals_loop A f' d rest (num_add A subtotal itemTotal)
                                      (num_add A taxAmount itemTax)))"

text \<open>Line 498.\<close>

definition totalAmount_of :: "arith \<Rightarrow> jsnum \<Rightarrow> jsnum \<Rightarrow> jsnum \<Rightarrow> jsnum" where
  "totalAmount_of A subtotal taxAmount discountAmt =
     num_sub A (num_add A subtotal taxAmount) discountAmt"

text \<open>The object of \<^verbatim>\<open>items.map\<close> in lines 514 to 521.\<close>

definition saleItem_of :: "arith \<Rightarrow> sale_line \<Rightarrow> item_data" where
  "saleItem_of A item =
     \<lparr> d_productId = productId item,
       d_quantity = quantity item,
       d_unitPrice = Fin (unitPrice item),
       d_discount = Fin (or_zero (discount item)),
       d_taxAmount =
         num_div A (num_mul A (num_mul A (Fin (unitPrice item)) (Fin (of_int (quantity item))))
                              (toNumber (taxRate item)))
                   (Fin 100),
       d_totalPrice =
         num_sub A (num_mul A (Fin (unitPrice item)) (Fin (of_int (quantity item))))
                   (Fin (or_zero (discount item))) \<rparr>"

text \<open>The loop of lines 538 to 548.\<close>

fun update_inventory_loop :: "fault \<Rightarrow> db \<Rightarrow> sale_line list \<Rightarrow> error + (fault \<times> db)" where
  "update_inventory_loop f d [] = Inr (f, d)"
| "update_inventory_loop f d (item # rest) =
     (case inventory_updateMany f d (productId item) (quantity item) of
        Inl e \<Rightarrow> Inl e
      | Inr (f', d') \<Rightarrow> update_inventory_loop f' d' rest)"

text \<open>\<^verbatim>\<open>if (customerId)\<close>: an absent and an empty identifier are both falsy.\<close>

definition truthy :: "uuid option \<Rightarrow> bool" where
  "truthy v = (case v of None \<Rightarrow> False | Some s \<Rightarrow> s \<noteq> [])"

text \<open>The \<^verbatim>\<open>data\<close> of \<^verbatim>\<open>prisma.sale.create\<close> (lines 503 to 523), then the callback
  handed to \<^verbatim>\<open>prisma.$transaction\<close> (lines 501 to 566). The identifier of the new sale is
  generated outside the route and is an argument here.\<close>

definition sale_data ::
  "arith \<Rightarrow> uuid \<Rightarrow> sale_request \<Rightarrow> jsnum \<Rightarrow> jsnum \<Rightarrow> jsnum \<Rightarrow> sale_input" where
  "sale_data A userId req totalAmount taxAmount discountAmt =
     \<lparr> in_customerId = customerId req,
       in_userId = userId,
       in_totalAmount = totalAmount,
       in_taxAmount = taxAmount,
       in_discountAmount = discountAmt,
       in_paymentMethodId = paymentMethodId req,
       in_paymentStatusId = paymentStatusId req,
       in_saleStatusId = saleStatusId req,
       in_notes = r_notes req,
       in_saleItems = map (saleItem_of A) (items req) \<rparr>"

definition createSale_body ::
  "arith \<Rightarrow> fault \<Rightarrow> uuid \<Rightarrow> uuid \<Rightarrow> sale_request \<Rightarrow> jsnum \<Rightarrow> jsnum \<Rightarrow> jsnum \<Rightarrow> db
     \<Rightarrow> error + (sale \<times> db)" where
  "createSale_body A f newId userId req totalAmount taxAmount discountAmt d =
     (case sale_create A f d newId (sale_data A userId req totalAmount taxAmount discountAmt) of
        Inl e \<Rightarrow> Inl e
      | Inr (f1, sale, d1) \<Rightarrow>
          (case update_inventory_loop f1 d1 (items req) of
             Inl e \<Rightarrow> Inl e
           | Inr (f2, d2) \<Rightarrow>
               if truthy (customerId req)
               then (case customer_update A f2 d2 (the (customerId req)) totalAmount
                            (num_floor A (num_div A totalAmount (Fin 10))) of
                       Inl e \<Rightarrow> Inl e
                     | Inr (f3, d3) \<Rightarrow> Inr (sale, d3))
               else Inr (sale, d2)))"

text \<open>\<^verbatim>\<open>prisma.$transaction\<close>: the writes of a callback that throws are rolled back.\<close>

definition transaction :: "(db \<Rightarrow> error + ('a \<times> db)) \<Rightarrow> db \<Rightarrow> (error + 'a) \<times> db" where
  "transaction body d = (case body d of Inl e \<Rightarrow> (Inl e, d) | Inr (x, d') \<Rightarrow> (Inr x, d'))"

definition createSale ::
  "arith \<Rightarrow> fault \<Rightarrow> db \<Rightarrow> uuid \<Rightarrow> uuid \<Rightarrow> sale_request \<Rightarrow> sale response \<times> db" where
  "createSale A f d newId userId req =
     (let discountAmt = Fin (case discountAmount req of None \<Rightarrow> 0 | Some x \<Rightarrow> x) in
      case totals_loop A f d (items req) (Fin 0) (Fin 0) of
        Thrown e \<Rightarrow> (Failure 500 ''Internal server error'', d)
      | NotFound pid \<Rightarrow> (Failure 400 (''Product '' @ pid @ '' not found''), d)
      | Totals f1 subtotal taxAmount \<Rightarrow>
          (let totalAmount = totalAmount_of A subtotal taxAmount discountAmt in
           case transaction
                  (createSale_body A f1 newId userId req totalAmount taxAmount discountAmt) d of
             (Inl e, d') \<Rightarrow> (Failure 500 ''Internal server error'', d')
           | (Inr sale, d') \<Rightarrow> (Success 201 sale, d')))"

subsection \<open>The triggers on \<^verbatim>\<open>sales\<close>\<close>

text \<open>
  Both triggers are \<^verbatim>\<open>AFTER UPDATE ... FOR EACH ROW\<close>: an \<^verbatim>\<open>INSERT\<close> does not fire
  them. A status identifier that is \<^verbatim>\<open>NULL\<close> or unknown has the name \<^verbatim>\<open>NULL\<close>, and a
  comparison with \<^verbatim>\<open>NULL\<close> does not take the branch.
\<close>

definition status_name :: "db \<Rightarrow> uuid option \<Rightarrow> string option" where
  "status_name d i = (case i of None \<Rightarrow> None | Some k \<Rightarrow> sale_statuses d k)"

text \<open>\<^verbatim>\<open>SELECT SUM(quantity) FROM sale_items WHERE sale_id = NEW.id AND product_id = inventory.product_id\<close>\<close>

definition sold_quantity :: "sale \<Rightarrow> uuid \<Rightarrow> int" where
  "sold_quantity s pid =
     sum_list (map si_quantity (filter (\<lambda>i. si_productId i = pid) (s_saleItems s)))"

definition in_sale :: "sale \<Rightarrow> uuid \<Rightarrow> bool" where
  "in_sale s pid = (pid \<in> set (map si_productId (s_saleItems s)))"

text \<open>The \<^verbatim>\<open>UPDATE inventory SET quantity = quantity - (...)\<close> of the first branch and the
  \<^verbatim>\<open>quantity + (...)\<close> of the second, under \<^verbatim>\<open>CHECK (quantity >= 0)\<close>; \<open>way\<close> is
  \<open>-1\<close> or \<open>1\<close>.\<close>

definition shift_row :: "int \<Rightarrow> sale \<Rightarrow> inventory_row \<Rightarrow> inventory_row" where
  "shift_row way s r =
     (if in_sale s (inv_productId r)
      then r\<lparr>inv_quantity := inv_quantity r + way * sold_quantity s (inv_productId r)\<rparr>
      else r)"

definition inventory_shift :: "int \<Rightarrow> db \<Rightarrow> sale \<Rightarrow> error + db" where
  "inventory_shift way d s =
     (let rows = map (shift_row way s) (inventory d) in
      if (\<exists>r \<in> set rows. in_sale s (inv_productId r) \<and> inv_quantity r < 0)
      then Inl CheckViolation
      else Inr (d\<lparr>inventory := rows\<rparr>))"

definition update_inventory_after_sale :: "db \<Rightarrow> sale \<Rightarrow> sale \<Rightarrow> error + db" where
  "update_inventory_after_sale d OLD NEW =
     (let old_status_name = status_name d (s_saleStatusId OLD);
          new_status_name = status_name d (s_saleStatusId NEW)
      in case (if new_status_name = Some ''completed'' \<and> old_status_name \<noteq> Some ''completed''
               then inventory_shift (- 1) d NEW else Inr d) of
           Inl e \<Rightarrow> Inl e
         | Inr d1 \<Rightarrow>
             (if new_status_name = Some ''cancelled'' \<and> old_status_name = Some ''completed''
              then inventory_shift 1 d1 NEW else Inr d1))"

text \<open>\<^verbatim>\<open>UPDATE customers SET total_purchases = ... WHERE id = NEW.customer_id\<close>\<close>

definition customers_set_total :: "(rat \<Rightarrow> rat) \<Rightarrow> db \<Rightarrow> uuid option \<Rightarrow> db" where
  "customers_set_total g d cid =
     (case cid of
        None \<Rightarrow> d
      | Some c \<Rightarrow>
          (case customers d c of
             None \<Rightarrow> d
           | Some cu \<Rightarrow>
               d\<lparr>customers := (customers d)(c \<mapsto> cu\<lparr>c_totalPurchases := g (c_totalPurchases cu)\<rparr>)\<rparr>))"

definition update_customer_total_purchases :: "db \<Rightarrow> sale \<Rightarrow> sale \<Rightarrow> db" where
  "update_customer_total_purchases d OLD NEW =
     (let old_status_name = status_name d (s_saleStatusId OLD);
          new_status_name = status_name d (s_saleStatusId NEW);
          d1 = (if new_status_name = Some ''completed'' \<and> old_status_name \<noteq> Some ''completed''
                then customers_set_total (\<lambda>t. t + s_totalAmount NEW) d (s_customerId NEW)
                else d)
      in if new_status_name = Some ''cancelled'' \<and> old_status_name = Some ''completed''
         then customers_set_total (\<lambda>t. max (t - s_totalAmount NEW) 0) d1 (s_customerId NEW)
         else d1)"

subsection \<open>Transition of the sale status\<close>

record status_request =
  new_paymentStatusId :: "uuid option"
  new_saleStatusId :: "uuid option"

text \<open>
  \<^verbatim>\<open>prisma.sale.update\<close> of lines 584 to 594, one \<^verbatim>\<open>UPDATE\<close> statement together with
  the triggers it fires (in the order of their names, the customer trigger first). A
  field left out of the request is not written; a status that is written must name a row
  of \<^verbatim>\<open>sale_statuses\<close> or of \<^verbatim>\<open>payment_statuses\<close>. The statement has no effect when
  a trigger fails.
\<close>

definition sale_update :: "fault \<Rightarrow> db \<Rightarrow> uuid \<Rightarrow> status_request \<Rightarrow> error + (sale \<times> db)" where
  "sale_update f d sid req =
     (case tick f of Inl e \<Rightarrow> Inl e | Inr f' \<Rightarrow>
        (case sales d sid of
           None \<Rightarrow> Inl RecordNotFound
         | Some OLD \<Rightarrow>
             (let NEW = OLD\<lparr> s_paymentStatusId :=
                               (case new_paymentStatusId req of
                                  None \<Rightarrow> s_paymentStatusId OLD | Some x \<Rightarrow> Some x),
                             s_saleStatusId :=
                               (case new_saleStatusId req of
                                  None \<Rightarrow> s_saleStatusId OLD | Some x \<Rightarrow> Some x) \<rparr>
              in if (case new_saleStatusId req of
                       None \<Rightarrow> False | Some k \<Rightarrow> sale_statuses d k = None)
                 then Inl ForeignKeyViolation
                 else if (case new_paymentStatusId req of
                            None \<Rightarrow> False | Some k \<Rightarrow> payment_statuses d k = None)
                 then Inl ForeignKeyViolation
                 else
                   (let d1 = d\<lparr>sales := (sales d)(sid \<mapsto> NEW)\<rparr>;
                        d2 = update_customer_total_purchases d1 OLD NEW
                    in case update_inventory_after_sale d2 OLD NEW of
                         Inl e \<Rightarrow> Inl e
                       | Inr d3 \<Rightarrow> Inr (NEW, d3)))))"

definition transitionSaleStatus ::
  "fault \<Rightarrow> db \<Rightarrow> uuid \<Rightarrow> status_request \<Rightarrow> sale response \<times> db" where
  "transitionSaleStatus f d sid req =
     (case sale_update f d sid req of
        Inl e \<Rightarrow>
          (if e = RecordNotFound then (Failure 404 ''Sale not found'', d)
           else (Failure 500 ''Internal server error'', d))
      | Inr (sale, d') \<Rightarrow> (Success 200 sale, d'))"

subsection \<open>Adjust stock\<close>

record stock_request =
  sr_quantity :: "int option"
  sr_operation :: string
  sr_reason :: "string option"

definition product_update :: "fault \<Rightarrow> db \<Rightarrow> uuid \<Rightarrow> int \<Rightarrow> error + (fault \<times> product \<times> db)" where
  "product_update f d pid q =
     (case tick f of Inl e \<Rightarrow> Inl e | Inr f' \<Rightarrow>
        (case products d pid of
           None \<Rightarrow> Inl RecordNotFound
         | Some p \<Rightarrow>
             Inr (f', p\<lparr>p_quantity := q\<rparr>,
                  d\<lparr>products := (products d)(pid \<mapsto> p\<lparr>p_quantity := q\<rparr>)\<rparr>)))"

definition inventoryLog_create :: "fault \<Rightarrow> db \<Rightarrow> inventory_log \<Rightarrow> error + (fault \<times> db)" where
  "inventoryLog_create f d entry =
     (case tick f of Inl e \<Rightarrow> Inl e
      | Inr f' \<Rightarrow> Inr (f', d\<lparr>inventoryLog := inventoryLog d @ [entry]\<rparr>))"

text \<open>
  The route of lines 205 to 260 of \<^verbatim>\<open>inventory.js\<close>. \<^verbatim>\<open>!quantity\<close> holds for an absent
  quantity and for \<^verbatim>\<open>0\<close>. The two writes are two statements outside any transaction.
\<close>

definition adjustStock ::
  "fault \<Rightarrow> db \<Rightarrow> uuid \<Rightarrow> stock_request \<Rightarrow> uuid \<Rightarrow> product response \<times> db" where
  "adjustStock f d pid req userId =
     (if (case sr_quantity req of None \<Rightarrow> True | Some q \<Rightarrow> q = 0 \<or> q < 0)
      then (Failure 400 ''Valid quantity is required'', d)
      else if sr_operation req \<notin> set [''add'', ''subtract'', ''set'']
      then (Failure 400 ''Valid operation is required (add, subtract, set)'', d)
      else
        (let q = the (sr_quantity req) in
         case product_findUnique f d pid of
           Inl e \<Rightarrow> (Failure 500 ''Failed to update stock'', d)
         | Inr (f1, None) \<Rightarrow> (Failure 404 ''Product not found'', d)
         | Inr (f1, Some product) \<Rightarrow>
             (let newQuantity =
                    (if sr_operation req = ''add'' then p_quantity product + q
                     else if sr_operation req = ''subtract'' then max 0 (p_quantity product - q)
                     else q)
              in case product_update f1 d pid newQuantity of
                   Inl e \<Rightarrow> (Failure 500 ''Failed to update stock'', d)
                 | Inr (f2, updatedProduct, d1) \<Rightarrow>
                     (case inventoryLog_create f2 d1
                             \<lparr> log_productId = pid,
                               log_operation = sr_operation req,
                               log_quantity = q,
                               log_previousQuantity = p_quantity product,
                               log_newQuantity = newQuantity,
                               log_reason =
                                 (case sr_reason req of
                                    None \<Rightarrow> ''Manual stock update''
                                  | Some r \<Rightarrow> if r = [] then ''Manual stock update'' else r),
                               log_userId = userId \<rparr> of
                        Inl e \<Rightarrow> (Failure 500 ''Failed to update stock'', d1)
                      | Inr (f3, d2) \<Rightarrow> (Success 200 updatedProduct, d2)))))"

section \<open>What a sale amounts to\<close>

text \<open>The quantities a list of lines asks of one product, and the amounts the catalog
  gives the lines, added up from zero in the order of the lines.\<close>

definition line_quantity :: "sale_line list \<Rightarrow> uuid \<Rightarrow> int" where
  "line_quantity ls pid = sum_list (map quantity (filter (\<lambda>l. productId l = pid) ls))"

definition sold_row :: "sale_line list \<Rightarrow> inventory_row \<Rightarrow> inventory_row" where
  "sold_row ls r = r\<lparr>inv_quantity := inv_quantity r - line_quantity ls (inv_productId r)\<rparr>"

definition line_total :: "arith \<Rightarrow> db \<Rightarrow> sale_line \<Rightarrow> jsnum" where
  "line_total A d l =
     (case products d (productId l) of
        None \<Rightarrow> NaN
      | Some p \<Rightarrow> num_mul A (of_decimal A (p_price p)) (Fin (of_int (quantity l))))"

definition line_tax :: "arith \<Rightarrow> db \<Rightarrow> sale_line \<Rightarrow> jsnum" where
  "line_tax A d l =
     (case products d (productId l) of
        None \<Rightarrow> NaN
      | Some p \<Rightarrow>
          num_mul A (num_mul A (of_decimal A (p_price p)) (Fin (of_int (quantity l))))
                    (num_div A (of_decimal A (p_taxRate p)) (Fin 100)))"

definition catalog_subtotal :: "arith \<Rightarrow> db \<Rightarrow> sale_line list \<Rightarrow> jsnum" where
  "catalog_subtotal A d ls = foldl (\<lambda>acc l. num_add A acc (line_total A d l)) (Fin 0) ls"

definition catalog_tax :: "arith \<Rightarrow> db \<Rightarrow> sale_line list \<Rightarrow> jsnum" where
  "catalog_tax A d ls = foldl (\<lambda>acc l. num_add A acc (line_tax A d l)) (Fin 0) ls"

definition requested_discount :: "sale_request \<Rightarrow> jsnum" where
  "requested_discount req = Fin (case discountAmount req of None \<Rightarrow> 0 | Some x \<Rightarrow> x)"

section \<open>A shop\<close>

text \<open>
  The arithmetic of the examples: exact on finite numbers, \<^verbatim>\<open>NaN\<close> from any operation
  that meets a number that is not finite, a decimal column rounding to two places (half
  away from zero) within ten digits and taking \<^verbatim>\<open>NaN\<close> as \<^verbatim>\<open>NULL\<close>, an integer column
  taking whole numbers. On the small whole amounts of the examples double arithmetic is
  exact as well; the one amount that is not whole, a discount of 108.004, is received by
  its column as 108.00 either way, and the total computed with it as 0.00.
\<close>

fun exact :: "(rat \<Rightarrow> rat \<Rightarrow> rat) \<Rightarrow> jsnum \<Rightarrow> jsnum \<Rightarrow> jsnum" where
  "exact g (Fin a) (Fin b) = Fin (g a b)"
| "exact g _ _ = NaN"

fun exact_div :: "jsnum \<Rightarrow> jsnum \<Rightarrow> jsnum" where
  "exact_div (Fin a) (Fin b) = (if b = 0 then NaN else Fin (a / b))"
| "exact_div _ _ = NaN"

fun exact_floor :: "jsnum \<Rightarrow> jsnum" where
  "exact_floor (Fin a) = Fin (of_int \<lfloor>a\<rfloor>)"
| "exact_floor x = x"

definition round_cents :: "rat \<Rightarrow> rat" where
  "round_cents x =
     (if 0 \<le> x then of_int ((\<lfloor>x * 200\<rfloor> + 1) div 2) / 100
      else - (of_int ((\<lfloor>- x * 200\<rfloor> + 1) div 2) / 100))"

definition decimal_10_2 :: "rat \<Rightarrow> error + rat" where
  "decimal_10_2 x =
     (if \<bar>round_cents x\<bar> < 100000000 then Inr (round_cents x) else Inl InvalidValue)"

fun exact_to_decimal :: "jsnum \<Rightarrow> error + rat option" where
  "exact_to_decimal (Fin a) =
     (case decimal_10_2 a of Inl e \<Rightarrow> Inl e | Inr v \<Rightarrow> Inr (Some v))"
| "exact_to_decimal NaN = Inr None"
| "exact_to_decimal _ = Inl InvalidValue"

fun exact_dec_add :: "rat \<Rightarrow> jsnum \<Rightarrow> error + rat" where
  "exact_dec_add t (Fin a) = decimal_10_2 (t + a)"
| "exact_dec_add t _ = Inl InvalidValue"

fun exact_to_int :: "jsnum \<Rightarrow> error + int" where
  "exact_to_int (Fin a) = (if of_int \<lfloor>a\<rfloor> = a then Inr \<lfloor>a\<rfloor> else Inl InvalidValue)"
| "exact_to_int _ = Inl InvalidValue"

definition exact_arith :: arith where
  "exact_arith =
     \<lparr> of_decimal = Fin,
       num_add = exact (+), num_sub = exact (-), num_mul = exact (*), num_div = exact_div,
       num_floor = exact_floor,
       to_decimal = exact_to_decimal, dec_add = exact_dec_add, to_int = exact_to_int \<rparr>"

text \<open>Two products with ten pieces each at the default location, one customer, one user,
  the lookup rows of the seed data, and requests against it.\<close>

definition shop :: db where
  "shop =
     \<lparr> users = {''u1''},
       products = [''p1'' \<mapsto> \<lparr>p_price = 100, p_taxRate = 8, p_quantity = 10\<rparr>,
                    ''p2'' \<mapsto> \<lparr>p_price = 20, p_taxRate = 0, p_quantity = 10\<rparr>],
       inventory = [\<lparr>inv_productId = ''p1'', inv_location = ''default'', inv_quantity = 10\<rparr>,
                    \<lparr>inv_productId = ''p2'', inv_location = ''default'', inv_quantity = 10\<rparr>],
       customers = [''c1'' \<mapsto> \<lparr>c_loyaltyPoints = 0, c_totalPurchases = 0\<rparr>],
       payment_methods = [''cash'' \<mapsto> ''cash'', ''card'' \<mapsto> ''card''],
       payment_statuses = [''pend'' \<mapsto> ''pending'', ''paid'' \<mapsto> ''paid''],
       sale_statuses = [''pe'' \<mapsto> ''pending'', ''co'' \<mapsto> ''completed'',
                        ''ca'' \<mapsto> ''cancelled'', ''re'' \<mapsto> ''refunded''],
       sales = Map.empty,
       inventoryLog = [] \<rparr>"

definition line :: "uuid \<Rightarrow> int \<Rightarrow> rat \<Rightarrow> rat option \<Rightarrow> sale_line" where
  "line pid q price rate =
     \<lparr>productId = pid, quantity = q, unitPrice = price, discount = None, taxRate = rate\<rparr>"

definition order :: "sale_line list \<Rightarrow> uuid \<Rightarrow> rat option \<Rightarrow> sale_request" where
  "order ls status disc =
     \<lparr> customerId = Some ''c1'', items = ls, paymentMethodId = None, paymentStatusId = None,
       saleStatusId = Some status, discountAmount = disc, r_notes = None \<rparr>"

text \<open>Five of the first product and three of the second, and the sale that is stored for
  them in a given status.\<close>

definition cart :: "sale_line list" where
  "cart = [line ''p1'' 5 100 (Some 8), line ''p2'' 3 20 (Some 0)]"

definition cart_sale :: "uuid \<Rightarrow> sale" where
  "cart_sale status =
     \<lparr> s_customerId = Some ''c1'', s_userId = ''u1'',
       s_totalAmount = 600, s_taxAmount = Some 40, s_discountAmount = Some 0,
       s_paymentMethodId = None, s_paymentStatusId = None, s_saleStatusId = Some status,
       s_notes = None,
       s_saleItems =
         [\<lparr>si_productId = ''p1'', si_quantity = 5, si_unitPrice = Some 100, si_discount = Some 0,
           si_taxAmount = Some 40, si_totalPrice = Some 500\<rparr>,
          \<lparr>si_productId = ''p2'', si_quantity = 3, si_unitPrice = Some 20, si_discount = Some 0,
           si_taxAmount = Some 0, si_totalPrice = Some 60\<rparr>] \<rparr>"

text \<open>One piece of the first product, with the tax rate the request states for it, and
  the sale that is stored for it.\<close>

definition single :: "rat option \<Rightarrow> sale_line list" where
  "single rate = [line ''p1'' 1 100 rate]"

definition single_sale :: "rat \<Rightarrow> rat option \<Rightarrow> rat option \<Rightarrow> sale" where
  "single_sale amount disc item_tax =
     \<lparr> s_customerId = Some ''c1'', s_userId = ''u1'',
       s_totalAmount = amount, s_taxAmount = Some 8, s_discountAmount = disc,
       s_paymentMethodId = None, s_paymentStatusId = None, s_saleStatusId = Some ''co'',
       s_notes = None,
       s_saleItems =
         [\<lparr>si_productId = ''p1'', si_quantity = 1, si_unitPrice = Some 100, si_discount = Some 0,
           si_taxAmount = item_tax, si_totalPrice = Some 100\<rparr>] \<rparr>"

text \<open>The shop with a second location for the first product.\<close>

definition shop_two_locations :: db where
  "shop_two_locations =
     shop\<lparr>inventory :=
       [\<lparr>inv_productId = ''p1'', inv_location = ''default'', inv_quantity = 10\<rparr>,
        \<lparr>inv_productId = ''p1'', inv_location = ''warehouse'', inv_quantity = 10\<rparr>,
        \<lparr>inv_productId = ''p2'', inv_location = ''default'', inv_quantity = 10\<rparr>]\<rparr>"

text \<open>The shop with three pieces of the first product.\<close>

definition shop_low :: db where
  "shop_low =
     shop\<lparr>inventory :=
       [\<lparr>inv_productId = ''p1'', inv_location = ''default'', inv_quantity = 3\<rparr>,
        \<lparr>inv_productId = ''p2'', inv_location = ''default'', inv_quantity = 10\<rparr>]\<rparr>"

text \<open>The shop with the cart already recorded as sale \<open>n1\<close> in a given status, and
  its customer credited for it.\<close>

definition shop_with_sale :: "uuid \<Rightarrow> db" where
  "shop_with_sale status =
     shop\<lparr> customers := [''c1'' \<mapsto> \<lparr>c_loyaltyPoints = 60, c_totalPurchases = 600\<rparr>],
           sales := [''n1'' \<mapsto> cart_sale status] \<rparr>"

definition to_status :: "uuid \<Rightarrow> status_request" where
  "to_status k = \<lparr>new_paymentStatusId = None, new_saleStatusId = Some k\<rparr>"

text \<open>Unfolding everything a concrete call of a route goes through.\<close>

lemmas run_defs =
  shop_def line_def order_def cart_def cart_sale_def single_def single_sale_def
  shop_two_locations_def shop_low_def shop_with_sale_def to_status_def
  exact_arith_def round_cents_def decimal_10_2_def refers_def
  createSale_def createSale_body_def sale_data_def transaction_def totalAmount_of_def
  saleItem_of_def store_item_def toNumber_def or_zero_def tick_def product_findUnique_def
  sale_create_def inventory_updateMany_def decrement_row_def customer_update_def truthy_def
  transitionSaleStatus_def sale_update_def update_inventory_after_sale_def
  update_customer_total_purchases_def customers_set_total_def inventory_shift_def
  shift_row_def in_sale_def sold_quantity_def status_name_def
  adjustStock_def product_update_def inventoryLog_create_def Let_def

lemma floor_rat_numeral [simp]:
  "\<lfloor>numeral a / numeral b :: rat\<rfloor> = numeral a div numeral b"
  "\<lfloor>- (numeral a / numeral b) :: rat\<rfloor> = - numeral a div numeral b"
  using floor_divide_of_int_eq[of "numeral a" "numeral b", where ?'a = rat]
        floor_divide_of_int_eq[of "- numeral a" "numeral b", where ?'a = rat]
  by simp_all

section \<open>The statements of a sale that went through\<close>

lemma inventory_updateMany_Inr:
  assumes "inventory_updateMany f d pid n = Inr (f', d')"
  shows "d' = d\<lparr>inventory := map (decrement_row pid n) (inventory d)\<rparr>"
    and "\<forall>r \<in> set (inventory d). inv_productId r = pid \<longrightarrow> n \<le> inv_quantity r"
proof -
  from assms have ok: "\<not> (\<exists>r \<in> set (map (decrement_row pid n) (inventory d)).
                          inv_productId r = pid \<and> inv_quantity r < 0)"
    and d': "d' = d\<lparr>inventory := map (decrement_row pid n) (inventory d)\<rparr>"
    unfolding inventory_updateMany_def Let_def
    by (auto split: sum.splits if_splits)
  show "d' = d\<lparr>inventory := map (decrement_row pid n) (inventory d)\<rparr>" by (rule d')
  show "\<forall>r \<in> set (inventory d). inv_productId r = pid \<longrightarrow> n \<le> inv_quantity r"
  proof (intro ballI impI)
    fix r assume r: "r \<in> set (inventory d)" and p: "inv_productId r = pid"
    from r have "decrement_row pid n r \<in> set (map (decrement_row pid n) (inventory d))"
      by simp
    with ok have "\<not> (inv_productId (decrement_row pid n r) = pid \<and>
                     inv_quantity (decrement_row pid n r) < 0)"
      by blast
    with p show "n \<le> inv_quantity r" by (simp add: decrement_row_def)
  qed
qed

lemma sold_row_Cons:
  "sold_row rest (decrement_row (productId l) (quantity l) r) = sold_row (l # rest) r"
  by (simp add: sold_row_def decrement_row_def line_quantity_def)

lemma update_inventory_loop_Inr:
  "update_inventory_loop f d ls = Inr (f', d') \<Longrightarrow>
     d' = d\<lparr>inventory := map (sold_row ls) (inventory d)\<rparr>"
proof (induction ls arbitrary: f d)
  case Nil
  then show ?case by (simp add: sold_row_def line_quantity_def)
next
  case (Cons l rest)
  from Cons.prems obtain f1 d1 where
    step: "inventory_updateMany f d (productId l) (quantity l) = Inr (f1, d1)" and
    rest: "update_inventory_loop f1 d1 rest = Inr (f', d')"
    by (auto split: sum.splits)
  from inventory_updateMany_Inr(1)[OF step]
  have d1: "d1 = d\<lparr>inventory := map (decrement_row (productId l) (quantity l)) (inventory d)\<rparr>"
    by simp
  from Cons.IH[OF rest] have "d' = d1\<lparr>inventory := map (sold_row rest) (inventory d1)\<rparr>" .
  with d1 show ?case by (simp add: sold_row_Cons comp_def)
qed

lemma totals_loop_Totals:
  "totals_loop A f d ls sub tax = Totals f' sub' tax' \<Longrightarrow>
     sub' = foldl (\<lambda>acc l. num_add A acc (line_total A d l)) sub ls \<and>
     tax' = foldl (\<lambda>acc l. num_add A acc (line_tax A d l)) tax ls \<and>
     (\<forall>l \<in> set ls. products d (productId l) \<noteq> None)"
proof (induction ls arbitrary: f sub tax)
  case Nil
  then show ?case by simp
next
  case (Cons l rest)
  from Cons.prems obtain f1 p where
    p: "products d (productId l) = Some p" and
    rest: "totals_loop A f1 d rest
             (num_add A sub (num_mul A (of_decimal A (p_price p)) (Fin (of_int (quantity l)))))
             (num_add A tax
                (num_mul A (num_mul A (of_decimal A (p_price p)) (Fin (of_int (quantity l))))
                           (num_div A (of_decimal A (p_taxRate p)) (Fin 100))))
           = Totals f' sub' tax'"
    by (auto simp: product_findUnique_def Let_def split: sum.splits option.splits)
  from Cons.IH[OF rest] p show ?case
    by (simp add: line_total_def line_tax_def)
qed

lemma totals_loop_NotFound:
  "totals_loop A f d ls sub tax = NotFound pid \<Longrightarrow>
     \<exists>l \<in> set ls. productId l = pid \<and> products d pid = None"
proof (induction ls arbitrary: f sub tax)
  case Nil
  then show ?case by simp
next
  case (Cons l rest)
  show ?case
  proof (cases "products d (productId l)")
    case None
    with Cons.prems show ?thesis
      by (auto simp: product_findUnique_def split: sum.splits)
  next
    case (Some p)
    with Cons.prems obtain f1 sub1 tax1 where "totals_loop A f1 d rest sub1 tax1 = NotFound pid"
      by (auto simp: product_findUnique_def Let_def split: sum.splits)
    from Cons.IH[OF this] show ?thesis by auto
  qed
qed

lemma store_item_Inr:
  assumes "store_item A x = Inr y"
  shows "si_productId y = d_productId x" and "si_quantity y = d_quantity x"
    and "to_decimal A (d_taxAmount x) = Inr (si_taxAmount y)"
  using assms unfolding store_item_def by (auto split: sum.splits)

lemma store_items_Inr:
  "store_items A xs = Inr ys \<Longrightarrow>
     length ys = length xs \<and> (\<forall>i < length xs. store_item A (xs ! i) = Inr (ys ! i))"
proof (induction xs arbitrary: ys)
  case Nil
  then show ?case by simp
next
  case (Cons x xs)
  from Cons.prems obtain y ys' where
    y: "store_item A x = Inr y" and ys': "store_items A xs = Inr ys'" and ys: "ys = y # ys'"
    by (auto split: sum.splits)
  from Cons.IH[OF ys'] y ys show ?case by (auto simp: nth_Cons split: nat.splits)
qed

lemma sale_create_Inr:
  assumes "sale_create A f d sid inp = Inr (f', s, d')"
  shows "d' = d\<lparr>sales := (sales d)(sid \<mapsto> s)\<rparr>"
    and "sales d sid = None"
    and "to_decimal A (in_totalAmount inp) = Inr (Some (s_totalAmount s))"
    and "0 \<le> s_totalAmount s"
    and "to_decimal A (in_taxAmount inp) = Inr (s_taxAmount s)"
    and "store_items A (in_saleItems inp) = Inr (s_saleItems s)"
  using assms unfolding sale_create_def Let_def
  by (auto split: sum.splits if_splits option.splits)

lemma customer_update_Inr:
  "customer_update A f d cid amount points = Inr (f', d') \<Longrightarrow>
     \<exists>c c'. customers d cid = Some c \<and> d' = d\<lparr>customers := (customers d)(cid \<mapsto> c')\<rparr>"
  unfolding customer_update_def
  by (auto split: sum.splits option.splits)

lemma createSale_body_Inr:
  assumes "createSale_body A f n u req amt tax disc d = Inr (s, d')"
  shows "sales d n = None"
    and "to_decimal A amt = Inr (Some (s_totalAmount s))"
    and "0 \<le> s_totalAmount s"
    and "sales d' = (sales d)(n \<mapsto> s)"
    and "inventory d' = map (sold_row (items req)) (inventory d)"
    and "products d' = products d" and "sale_statuses d' = sale_statuses d"
    and "inventoryLog d' = inventoryLog d"
    and "truthy (customerId req) \<Longrightarrow>
           \<exists>c c'. customers d (the (customerId req)) = Some c \<and>
               customers d' = (customers d)(the (customerId req) \<mapsto> c')"
    and "\<not> truthy (customerId req) \<Longrightarrow> customers d' = customers d"
    and "to_decimal A tax = Inr (s_taxAmount s)"
    and "store_items A (map (saleItem_of A) (items req)) = Inr (s_saleItems s)"
proof -
  let ?inp = "sale_data A u req amt tax disc"
  from assms obtain f1 d1 f2 d2 where
    a: "sale_create A f d n ?inp = Inr (f1, s, d1)" and
    b: "update_inventory_loop f1 d1 (items req) = Inr (f2, d2)" and
    c: "if truthy (customerId req)
        then \<exists>f3. customer_update A f2 d2 (the (customerId req)) amt
                     (num_floor A (num_div A amt (Fin 10))) = Inr (f3, d')
        else d' = d2"
    unfolding createSale_body_def
    by (auto split: sum.splits if_splits)
  note sc = sale_create_Inr[OF a]
  from sc(1) have d1: "d1 = d\<lparr>sales := (sales d)(n \<mapsto> s)\<rparr>" .
  from update_inventory_loop_Inr[OF b]
  have d2: "d2 = d1\<lparr>inventory := map (sold_row (items req)) (inventory d1)\<rparr>" .
  show "sales d n = None" by (rule sc(2))
  from sc(3) show "to_decimal A amt = Inr (Some (s_totalAmount s))" by (simp add: sale_data_def)
  show "0 \<le> s_totalAmount s" by (rule sc(4))
  from sc(5) show "to_decimal A tax = Inr (s_taxAmount s)" by (simp add: sale_data_def)
  from sc(6) show "store_items A (map (saleItem_of A) (items req)) = Inr (s_saleItems s)"
    by (simp add: sale_data_def)
  have d'_rest: "sales d' = sales d2 \<and> inventory d' = inventory d2 \<and> products d' = products d2
      \<and> sale_statuses d' = sale_statuses d2 \<and> inventoryLog d' = inventoryLog d2"
  proof (cases "truthy (customerId req)")
    case True
    with c obtain f3 where
      "customer_update A f2 d2 (the (customerId req)) amt
         (num_floor A (num_div A amt (Fin 10))) = Inr (f3, d')" by auto
    from customer_update_Inr[OF this] show ?thesis by auto
  next
    case False
    with c show ?thesis by simp
  qed
  with d1 d2 show "sales d' = (sales d)(n \<mapsto> s)" by simp
  from d'_rest d1 d2 show "inventory d' = map (sold_row (items req)) (inventory d)" by simp
  from d'_rest d1 d2 show "products d' = products d" by simp
  from d'_rest d1 d2 show "sale_statuses d' = sale_statuses d" by simp
  from d'_rest d1 d2 show "inventoryLog d' = inventoryLog d" by simp
  {
    assume t: "truthy (customerId req)"
    with c obtain f3 where
      "customer_update A f2 d2 (the (customerId req)) amt
         (num_floor A (num_div A amt (Fin 10))) = Inr (f3, d')" by auto
    from customer_update_Inr[OF this] d1 d2
    show "\<exists>c c'. customers d (the (customerId req)) = Some c \<and>
               customers d' = (customers d)(the (customerId req) \<mapsto> c')"
      by auto
  }
  {
    assume "\<not> truthy (customerId req)"
    with c d1 d2 show "customers d' = customers d" by simp
  }
qed

lemma createSale_cases:
  obtains (thrown) e where "totals_loop A f d (items req) (Fin 0) (Fin 0) = Thrown e"
      "createSale A f d n u req = (Failure 500 ''Internal server error'', d)"
  | (notfound) pid where "totals_loop A f d (items req) (Fin 0) (Fin 0) = NotFound pid"
      "createSale A f d n u req = (Failure 400 (''Product '' @ pid @ '' not found''), d)"
  | (rolled_back) f1 e where
      "totals_loop A f d (items req) (Fin 0) (Fin 0) =
         Totals f1 (catalog_subtotal A d (items req)) (catalog_tax A d (items req))"
      "createSale_body A f1 n u req
         (totalAmount_of A (catalog_subtotal A d (items req)) (catalog_tax A d (items req))
            (requested_discount req))
         (catalog_tax A d (items req)) (requested_discount req) d = Inl e"
      "createSale A f d n u req = (Failure 500 ''Internal server error'', d)"
  | (committed) f1 s d' where
      "totals_loop A f d (items req) (Fin 0) (Fin 0) =
         Totals f1 (catalog_subtotal A d (items req)) (catalog_tax A d (items req))"
      "createSale_body A f1 n u req
         (totalAmount_of A (catalog_subtotal A d (items req)) (catalog_tax A d (items req))
            (requested_discount req))
         (catalog_tax A d (items req)) (requested_discount req) d = Inr (s, d')"
      "createSale A f d n u req = (Success 201 s, d')"
proof (cases "totals_loop A f d (items req) (Fin 0) (Fin 0)")
  case (Thrown e)
  then show ?thesis using thrown by (simp add: createSale_def)
next
  case (NotFound pid)
  then show ?thesis using notfound by (simp add: createSale_def)
next
  case (Totals f1 sub tax)
  from totals_loop_Totals[OF Totals]
  have sub: "sub = catalog_subtotal A d (items req)" and tax: "tax = catalog_tax A d (items req)"
    by (simp_all add: catalog_subtotal_def catalog_tax_def)
  let ?body = "createSale_body A f1 n u req
         (totalAmount_of A (catalog_subtotal A d (items req)) (catalog_tax A d (items req))
            (requested_discount req))
         (catalog_tax A d (items req)) (requested_discount req) d"
  show ?thesis
  proof (cases ?body)
    case (Inl e)
    with Totals sub tax have "createSale A f d n u req = (Failure 500 ''Internal server error'', d)"
      by (simp add: createSale_def transaction_def requested_discount_def Let_def)
    with Totals sub tax Inl show ?thesis using rolled_back by simp
  next
    case (Inr r)
    obtain s d' where r: "r = (s, d')" by (cases r)
    with Totals sub tax Inr have "createSale A f d n u req = (Success 201 s, d')"
      by (simp add: createSale_def transaction_def requested_discount_def Let_def)
    with Totals sub tax Inr r show ?thesis using committed by simp
  qed
qed

lemma line_quantity_Cons:
  "line_quantity (l # ls) p = (if productId l = p then quantity l else 0) + line_quantity ls p"
  by (simp add: line_quantity_def)

lemma line_quantity_absent:
  "\<forall>l \<in> set ls. productId l \<noteq> p \<Longrightarrow> line_quantity ls p = 0"
  by (induction ls) (simp_all add: line_quantity_def)

lemma line_quantity_nonneg:
  "\<forall>k \<in> set ls. 0 \<le> quantity k \<Longrightarrow> 0 \<le> line_quantity ls p"
  by (induction ls) (simp_all add: line_quantity_def)

lemma quantity_le_line_quantity:
  "l \<in> set ls \<Longrightarrow> \<forall>k \<in> set ls. 0 \<le> quantity k \<Longrightarrow> quantity l \<le> line_quantity ls (productId l)"
proof (induction ls)
  case Nil
  then show ?case by simp
next
  case (Cons a ls)
  have nn: "0 \<le> line_quantity ls (productId l)"
    using Cons.prems(2) by (intro line_quantity_nonneg) simp
  show ?case
  proof (cases "l = a")
    case True
    with nn show ?thesis by (simp add: line_quantity_Cons)
  next
    case False
    with Cons have "quantity l \<le> line_quantity ls (productId l)" by simp
    moreover from Cons.prems(2) have "0 \<le> quantity a" by simp
    ultimately show ?thesis by (simp add: line_quantity_Cons)
  qed
qed

lemma update_inventory_loop_covered:
  "update_inventory_loop f d ls = Inr (f', d') \<Longrightarrow> r \<in> set (inventory d) \<Longrightarrow>
     \<exists>l \<in> set ls. productId l = inv_productId r \<Longrightarrow>
     line_quantity ls (inv_productId r) \<le> inv_quantity r"
proof (induction ls arbitrary: f d r)
  case Nil
  then show ?case by simp
next
  case (Cons l rest)
  from Cons.prems(1) obtain f1 d1 where
    step: "inventory_updateMany f d (productId l) (quantity l) = Inr (f1, d1)" and
    rest: "update_inventory_loop f1 d1 rest = Inr (f', d')"
    by (auto split: sum.splits)
  note d1 = inventory_updateMany_Inr(1)[OF step]
  note enough = inventory_updateMany_Inr(2)[OF step]
  let ?r1 = "decrement_row (productId l) (quantity l) r"
  have r1: "?r1 \<in> set (inventory d1)" using Cons.prems(2) d1 by simp
  have p1: "inv_productId ?r1 = inv_productId r" by (simp add: decrement_row_def)
  have q1: "inv_quantity ?r1 =
              inv_quantity r - (if productId l = inv_productId r then quantity l else 0)"
    by (simp add: decrement_row_def)
  show ?case
  proof (cases "\<exists>k \<in> set rest. productId k = inv_productId r")
    case True
    with Cons.IH[OF rest r1] p1
    have "line_quantity rest (inv_productId r) \<le> inv_quantity ?r1" by simp
    with q1 show ?thesis by (simp add: line_quantity_Cons)
  next
    case False
    then have zero: "line_quantity rest (inv_productId r) = 0"
      by (intro line_quantity_absent) auto
    from False Cons.prems(3) have here: "productId l = inv_productId r" by auto
    with enough Cons.prems(2) have "quantity l \<le> inv_quantity r" by auto
    with zero here show ?thesis by (simp add: line_quantity_Cons)
  qed
qed

lemma createSale_body_stock:
  assumes "createSale_body A f n u req amt tax disc d = Inr (s, d')"
    and "r \<in> set (inventory d)"
    and "\<exists>l \<in> set (items req). productId l = inv_productId r"
  shows "line_quantity (items req) (inv_productId r) \<le> inv_quantity r"
proof -
  from assms(1) obtain f1 d1 f2 d2 where
    a: "sale_create A f d n (sale_data A u req amt tax disc) = Inr (f1, s, d1)" and
    b: "update_inventory_loop f1 d1 (items req) = Inr (f2, d2)"
    unfolding createSale_body_def
    by (auto split: sum.splits if_splits)
  from sale_create_Inr(1)[OF a] have "inventory d1 = inventory d" by simp
  with assms(2) have "r \<in> set (inventory d1)" by simp
  from update_inventory_loop_covered[OF b this assms(3)] show ?thesis .
qed

lemma createSale_oversell:
  assumes l: "l \<in> set (items req)" and r: "r \<in> set (inventory d)"
    and p: "inv_productId r = productId l" and less: "inv_quantity r < quantity l"
    and nn: "\<forall>k \<in> set (items req). 0 \<le> quantity k"
  shows "snd (createSale A f d n u req) = d \<and>
         (fst (createSale A f d n u req) = Failure 500 ''Internal server error'' \<or>
          (\<exists>pid. fst (createSale A f d n u req) = Failure 400 (''Product '' @ pid @ '' not found'')))"
proof (cases rule: createSale_cases[of A f d req n u])
  case (thrown e)
  then show ?thesis by simp
next
  case (notfound pid)
  then show ?thesis by simp
next
  case (rolled_back f1 e)
  then show ?thesis by simp
next
  case (committed f1 s d')
  from l p have "\<exists>k \<in> set (items req). productId k = inv_productId r" by auto
  from createSale_body_stock[OF committed(2) r this] p
  have "line_quantity (items req) (productId l) \<le> inv_quantity r" by simp
  moreover from quantity_le_line_quantity[OF l nn]
  have "quantity l \<le> line_quantity (items req) (productId l)" .
  ultimately show ?thesis using less by simp
qed

lemma createSale_stock_nonneg:
  assumes "\<forall>r \<in> set (inventory d). 0 \<le> inv_quantity r"
  shows "\<forall>r \<in> set (inventory (snd (createSale A f d n u req))). 0 \<le> inv_quantity r"
proof (cases rule: createSale_cases[of A f d req n u])
  case (thrown e)
  with assms show ?thesis by simp
next
  case (notfound pid)
  with assms show ?thesis by simp
next
  case (rolled_back f1 e)
  with assms show ?thesis by simp
next
  case (committed f1 s d')
  have "0 \<le> inv_quantity (sold_row (items req) r)" if r: "r \<in> set (inventory d)" for r
  proof (cases "\<exists>l \<in> set (items req). productId l = inv_productId r")
    case True
    from createSale_body_stock[OF committed(2) r True] show ?thesis
      by (simp add: sold_row_def)
  next
    case False
    then have "line_quantity (items req) (inv_productId r) = 0"
      by (intro line_quantity_absent) auto
    with assms r show ?thesis by (simp add: sold_row_def)
  qed
  with createSale_body_Inr(5)[OF committed(2)] committed(3) show ?thesis by auto
qed

lemma createSale_Success:
  assumes "fst (createSale A f d n u req) = Success c s"
  obtains f1 where
    "createSale_body A f1 n u req
         (totalAmount_of A (catalog_subtotal A d (items req)) (catalog_tax A d (items req))
            (requested_discount req))
         (catalog_tax A d (items req)) (requested_discount req) d
       = Inr (s, snd (createSale A f d n u req))"
    and "c = 201"
proof (cases rule: createSale_cases[of A f d req n u])
  case (committed f1 s' d')
  with assms that show ?thesis by simp
qed (use assms in simp_all)

lemma stored_items_lines:
  assumes "store_items A (map (saleItem_of A) ls) = Inr ys"
  shows "map si_productId ys = map productId ls" and "map si_quantity ys = map quantity ls"
    and "\<And>i. i < length ls \<Longrightarrow>
           to_decimal A (d_taxAmount (saleItem_of A (ls ! i))) = Inr (si_taxAmount (ys ! i))"
    and "length ys = length ls"
proof -
  from store_items_Inr[OF assms]
  have len: "length ys = length ls"
    and each: "\<And>i. i < length ls \<Longrightarrow> store_item A (saleItem_of A (ls ! i)) = Inr (ys ! i)"
    by simp_all
  show "length ys = length ls" by (rule len)
  show "map si_productId ys = map productId ls"
    using len store_item_Inr(1)[OF each]
    by (simp add: list_eq_iff_nth_eq saleItem_of_def)
  show "map si_quantity ys = map quantity ls"
    using len store_item_Inr(2)[OF each]
    by (simp add: list_eq_iff_nth_eq saleItem_of_def)
  show "\<And>i. i < length ls \<Longrightarrow>
           to_decimal A (d_taxAmount (saleItem_of A (ls ! i))) = Inr (si_taxAmount (ys ! i))"
    by (rule store_item_Inr(3)[OF each])
qed

lemma createSale_item_tax:
  assumes ok: "fst (createSale A f d n u req) = Success c s"
  shows "sales (snd (createSale A f d n u req)) n = Some s"
    and "length (s_saleItems s) = length (items req)"
    and "\<And>i. i < length (items req) \<Longrightarrow>
         to_decimal A
           (num_div A
              (num_mul A (num_mul A (Fin (unitPrice (items req ! i)))
                                    (Fin (of_int (quantity (items req ! i)))))
                         (case taxRate (items req ! i) of None \<Rightarrow> NaN | Some r \<Rightarrow> Fin r))
              (Fin 100))
           = Inr (si_taxAmount (s_saleItems s ! i))"
    and "to_decimal A (catalog_tax A d (items req)) = Inr (s_taxAmount s)"
proof -
  from createSale_Success[OF ok] obtain f1 where
    body: "createSale_body A f1 n u req
         (totalAmount_of A (catalog_subtotal A d (items req)) (catalog_tax A d (items req))
            (requested_discount req))
         (catalog_tax A d (items req)) (requested_discount req) d
       = Inr (s, snd (createSale A f d n u req))"
    by blast
  note b = createSale_body_Inr[OF body]
  note its = stored_items_lines[OF b(12)]
  from b(4) show "sales (snd (createSale A f d n u req)) n = Some s" by simp
  from its(4) show "length (s_saleItems s) = length (items req)" .
  from b(11) show "to_decimal A (catalog_tax A d (items req)) = Inr (s_taxAmount s)" .
  fix i assume "i < length (items req)"
  from its(3)[OF this]
  show "to_decimal A
           (num_div A
              (num_mul A (num_mul A (Fin (unitPrice (items req ! i)))
                                    (Fin (of_int (quantity (items req ! i)))))
                         (case taxRate (items req ! i) of None \<Rightarrow> NaN | Some r \<Rightarrow> Fin r))
              (Fin 100))
           = Inr (si_taxAmount (s_saleItems s ! i))"
    by (simp add: saleItem_of_def toNumber_def)
qed

section \<open>The statements of a status update\<close>

lemma status_name_frame [simp]:
  "status_name (d\<lparr>sales := x\<rparr>) i = status_name d i"
  "status_name (d\<lparr>inventory := y\<rparr>) i = status_name d i"
  "status_name (customers_set_total g d c) i = status_name d i"
  by (auto simp: status_name_def customers_set_total_def split: option.splits)

lemma customers_set_total_frame [simp]:
  "inventory (customers_set_total g d c) = inventory d"
  "sales (customers_set_total g d c) = sales d"
  "sale_statuses (customers_set_total g d c) = sale_statuses d"
  "payment_statuses (customers_set_total g d c) = payment_statuses d"
  by (auto simp: customers_set_total_def split: option.splits)

lemma customers_set_total_sales [simp]:
  "customers (customers_set_total g (d\<lparr>sales := x\<rparr>) c) = customers (customers_set_total g d c)"
  by (auto simp: customers_set_total_def split: option.splits)

lemma shift_row_items:
  "s_saleItems a = s_saleItems b \<Longrightarrow> shift_row w a = shift_row w b"
  by (auto simp: shift_row_def in_sale_def sold_quantity_def fun_eq_iff)

lemma in_sale_items:
  "s_saleItems a = s_saleItems b \<Longrightarrow> in_sale a = in_sale b"
  by (auto simp: in_sale_def fun_eq_iff)

lemma sold_quantity_absent: "\<not> in_sale s p \<Longrightarrow> sold_quantity s p = 0"
proof -
  assume "\<not> in_sale s p"
  then have "filter (\<lambda>i. si_productId i = p) (s_saleItems s) = []"
    by (auto simp: in_sale_def filter_empty_conv)
  then show ?thesis by (simp add: sold_quantity_def)
qed

lemma shift_row_add:
  "shift_row w s r = r\<lparr>inv_quantity := inv_quantity r + w * sold_quantity s (inv_productId r)\<rparr>"
  by (simp add: shift_row_def sold_quantity_absent)

lemma shift_row_back: "shift_row 1 s (shift_row (- 1) s r) = r"
  by (simp add: shift_row_add)

lemma inventory_shift_Inr:
  assumes "inventory_shift w d s = Inr d'"
  shows "d' = d\<lparr>inventory := map (shift_row w s) (inventory d)\<rparr>"
  using assms unfolding inventory_shift_def Let_def by (auto split: if_splits)

lemma inventory_shift_ok:
  assumes "\<forall>r \<in> set (inventory d). 0 \<le> inv_quantity (shift_row w s r)"
  shows "inventory_shift w d s = Inr (d\<lparr>inventory := map (shift_row w s) (inventory d)\<rparr>)"
  using assms unfolding inventory_shift_def Let_def by (auto simp: not_less)

text \<open>What a status update that went through has done, by the old and the new name.\<close>

lemma transition_Success:
  assumes run: "transitionSaleStatus f d sid req = (Success c s, d')"
    and old: "sales d sid = Some OLD"
  shows "s_saleItems s = s_saleItems OLD"
    and "s_customerId s = s_customerId OLD"
    and "s_totalAmount s = s_totalAmount OLD"
    and "s_saleStatusId s =
       (case new_saleStatusId req of None \<Rightarrow> s_saleStatusId OLD | Some x \<Rightarrow> Some x)"
    and "c = 200"
    and "inventory d' =
       (if status_name d (s_saleStatusId s) = Some ''completed'' \<and>
           status_name d (s_saleStatusId OLD) \<noteq> Some ''completed''
        then map (shift_row (- 1) OLD) (inventory d)
        else if status_name d (s_saleStatusId s) = Some ''cancelled'' \<and>
                status_name d (s_saleStatusId OLD) = Some ''completed''
        then map (shift_row 1 OLD) (inventory d)
        else inventory d)"
    and "customers d' =
       (if status_name d (s_saleStatusId s) = Some ''completed'' \<and>
           status_name d (s_saleStatusId OLD) \<noteq> Some ''completed''
        then customers (customers_set_total (\<lambda>t. t + s_totalAmount OLD) d (s_customerId OLD))
        else if status_name d (s_saleStatusId s) = Some ''cancelled'' \<and>
                status_name d (s_saleStatusId OLD) = Some ''completed''
        then customers (customers_set_total (\<lambda>t. max (t - s_totalAmount OLD) 0) d (s_customerId OLD))
        else customers d)"
    and "sale_statuses d' = sale_statuses d"
    and "sales d' = (sales d)(sid \<mapsto> s)"
    and "payment_statuses d' = payment_statuses d"
proof -
  from run have upd: "sale_update f d sid req = Inr (s, d')"
    unfolding transitionSaleStatus_def by (auto split: sum.splits if_splits)
  define NEW where "NEW = OLD\<lparr> s_paymentStatusId :=
                               (case new_paymentStatusId req of
                                  None \<Rightarrow> s_paymentStatusId OLD | Some x \<Rightarrow> Some x),
                             s_saleStatusId :=
                               (case new_saleStatusId req of
                                  None \<Rightarrow> s_saleStatusId OLD | Some x \<Rightarrow> Some x) \<rparr>"
  define d2 where "d2 = update_customer_total_purchases (d\<lparr>sales := (sales d)(sid \<mapsto> NEW)\<rparr>) OLD NEW"
  from upd old have s: "s = NEW" and trig: "update_inventory_after_sale d2 OLD NEW = Inr d'"
    unfolding sale_update_def NEW_def d2_def Let_def
    by (auto split: sum.splits option.splits if_splits)
  have items: "s_saleItems NEW = s_saleItems OLD" and cust: "s_customerId NEW = s_customerId OLD"
    and amt: "s_totalAmount NEW = s_totalAmount OLD"
    by (simp_all add: NEW_def)
  have d2_inv: "inventory d2 = inventory d" and d2_st: "sale_statuses d2 = sale_statuses d"
    and d2_sales: "sales d2 = (sales d)(sid \<mapsto> NEW)"
    and d2_names: "\<And>i. status_name d2 i = status_name d i"
    and d2_pay: "payment_statuses d2 = payment_statuses d"
    unfolding d2_def update_customer_total_purchases_def Let_def by simp_all
  have d2_cust: "customers d2 =
       (if status_name d (s_saleStatusId NEW) = Some ''completed'' \<and>
           status_name d (s_saleStatusId OLD) \<noteq> Some ''completed''
        then customers (customers_set_total (\<lambda>t. t + s_totalAmount OLD) d (s_customerId OLD))
        else if status_name d (s_saleStatusId NEW) = Some ''cancelled'' \<and>
                status_name d (s_saleStatusId OLD) = Some ''completed''
        then customers (customers_set_total (\<lambda>t. max (t - s_totalAmount OLD) 0) d (s_customerId OLD))
        else customers d)"
    unfolding d2_def update_customer_total_purchases_def Let_def
    by (simp add: cust amt)
  have sh: "\<And>w. shift_row w NEW = shift_row w OLD" by (rule shift_row_items[OF items])
  from trig have d': "d' =
       (if status_name d (s_saleStatusId NEW) = Some ''completed'' \<and>
           status_name d (s_saleStatusId OLD) \<noteq> Some ''completed''
        then d2\<lparr>inventory := map (shift_row (- 1) OLD) (inventory d2)\<rparr>
        else if status_name d (s_saleStatusId NEW) = Some ''cancelled'' \<and>
                status_name d (s_saleStatusId OLD) = Some ''completed''
        then d2\<lparr>inventory := map (shift_row 1 OLD) (inventory d2)\<rparr>
        else d2)"
    unfolding update_inventory_after_sale_def Let_def d2_names
    by (auto split: if_splits sum.splits dest!: inventory_shift_Inr simp: sh)
  show "s_saleItems s = s_saleItems OLD" by (simp add: s items)
  show "s_customerId s = s_customerId OLD" by (simp add: s cust)
  show "s_totalAmount s = s_totalAmount OLD" by (simp add: s amt)
  show "c = 200" using run unfolding transitionSaleStatus_def
    by (auto split: sum.splits if_splits)
  show "s_saleStatusId s =
       (case new_saleStatusId req of None \<Rightarrow> s_saleStatusId OLD | Some x \<Rightarrow> Some x)"
    by (simp add: s NEW_def)
  show "inventory d' =
       (if status_name d (s_saleStatusId s) = Some ''completed'' \<and>
           status_name d (s_saleStatusId OLD) \<noteq> Some ''completed''
        then map (shift_row (- 1) OLD) (inventory d)
        else if status_name d (s_saleStatusId s) = Some ''cancelled'' \<and>
                status_name d (s_saleStatusId OLD) = Some ''completed''
        then map (shift_row 1 OLD) (inventory d)
        else inventory d)"
    by (simp add: d' s d2_inv)
  show "customers d' =
       (if status_name d (s_saleStatusId s) = Some ''completed'' \<and>
           status_name d (s_saleStatusId OLD) \<noteq> Some ''completed''
        then customers (customers_set_total (\<lambda>t. t + s_totalAmount OLD) d (s_customerId OLD))
        else if status_name d (s_saleStatusId s) = Some ''cancelled'' \<and>
                status_name d (s_saleStatusId OLD) = Some ''completed''
        then customers (customers_set_total (\<lambda>t. max (t - s_totalAmount OLD) 0) d (s_customerId OLD))
        else customers d)"
    using d2_cust by (simp add: d' s)
  show "sale_statuses d' = sale_statuses d" by (simp add: d' d2_st)
  show "sales d' = (sales d)(sid \<mapsto> s)" by (simp add: d' d2_sales s)
  show "payment_statuses d' = payment_statuses d" by (simp add: d' d2_pay)
qed

text \<open>The three kinds of transition.\<close>

lemma transition_entering:
  assumes run: "transitionSaleStatus f d sid req = (Success c s, d')"
    and old: "sales d sid = Some OLD"
    and was: "status_name d (s_saleStatusId OLD) \<noteq> Some ''completed''"
    and now: "status_name d (s_saleStatusId s) = Some ''completed''"
  shows "inventory d' = map (shift_row (- 1) OLD) (inventory d)"
    and "customers d' =
           customers (customers_set_total (\<lambda>t. t + s_totalAmount OLD) d (s_customerId OLD))"
  using transition_Success(6)[OF run old] transition_Success(7)[OF run old] was now
  by simp_all

lemma transition_leaving:
  assumes run: "transitionSaleStatus f d sid req = (Success c s, d')"
    and old: "sales d sid = Some OLD"
    and was: "status_name d (s_saleStatusId OLD) = Some ''completed''"
    and now: "status_name d (s_saleStatusId s) = Some ''cancelled''"
  shows "inventory d' = map (shift_row 1 OLD) (inventory d)"
    and "customers d' =
           customers (customers_set_total (\<lambda>t. max (t - s_totalAmount OLD) 0) d (s_customerId OLD))"
  using transition_Success(6)[OF run old] transition_Success(7)[OF run old] was now
  by simp_all

lemma transition_other:
  assumes run: "transitionSaleStatus f d sid req = (Success c s, d')"
    and old: "sales d sid = Some OLD"
    and no_enter: "status_name d (s_saleStatusId s) = Some ''completed'' \<longrightarrow>
                     status_name d (s_saleStatusId OLD) = Some ''completed''"
    and no_leave: "status_name d (s_saleStatusId s) \<noteq> Some ''cancelled'' \<or>
                     status_name d (s_saleStatusId OLD) \<noteq> Some ''completed''"
  shows "inventory d' = inventory d" and "customers d' = customers d"
  using transition_Success(6)[OF run old] transition_Success(7)[OF run old] no_enter no_leave
  by auto

lemma transition_new_name:
  assumes run: "transitionSaleStatus f d sid req = (Success c s, d')"
    and old: "sales d sid = Some OLD"
    and k: "new_saleStatusId req = Some k"
  shows "status_name d (s_saleStatusId s) = sale_statuses d k"
  using transition_Success(4)[OF run old] k by (simp add: status_name_def)

lemma transition_Failure:
  "fst (transitionSaleStatus f d sid req) = Failure c m \<Longrightarrow>
     snd (transitionSaleStatus f d sid req) = d"
  unfolding transitionSaleStatus_def by (auto split: sum.splits if_splits prod.splits)

lemma transition_cancel_goes_through:
  assumes old: "sales d sid = Some OLD"
    and was: "status_name d (s_saleStatusId OLD) = Some ''completed''"
    and nk: "new_saleStatusId req = Some k"
    and k: "sale_statuses d k = Some ''cancelled''"
    and pay: "refers (payment_statuses d) (new_paymentStatusId req)"
    and room: "\<forall>r \<in> set (inventory d). 0 \<le> inv_quantity (shift_row 1 OLD r)"
  shows "\<exists>s d'. transitionSaleStatus None d sid req = (Success 200 s, d')"
proof -
  define NEW where "NEW = OLD\<lparr> s_paymentStatusId :=
                               (case new_paymentStatusId req of
                                  None \<Rightarrow> s_paymentStatusId OLD | Some x \<Rightarrow> Some x),
                             s_saleStatusId :=
                               (case new_saleStatusId req of
                                  None \<Rightarrow> s_saleStatusId OLD | Some x \<Rightarrow> Some x) \<rparr>"
  define d2 where "d2 = update_customer_total_purchases (d\<lparr>sales := (sales d)(sid \<mapsto> NEW)\<rparr>) OLD NEW"
  have paid: "\<not> (case new_paymentStatusId req of
                   None \<Rightarrow> False | Some k \<Rightarrow> payment_statuses d k = None)"
    using pay by (simp add: refers_def split: option.splits)
  have items: "s_saleItems NEW = s_saleItems OLD" by (simp add: NEW_def)
  have d2_inv: "inventory d2 = inventory d"
    and d2_names: "\<And>i. status_name d2 i = status_name d i"
    unfolding d2_def update_customer_total_purchases_def Let_def by simp_all
  have new_name: "status_name d (s_saleStatusId NEW) = Some ''cancelled''"
    using k nk by (simp add: NEW_def status_name_def)
  from room have "\<forall>r \<in> set (inventory d2). 0 \<le> inv_quantity (shift_row 1 NEW r)"
    by (simp add: d2_inv shift_row_items[OF items])
  from inventory_shift_ok[OF this]
  have trig: "update_inventory_after_sale d2 OLD NEW =
          Inr (d2\<lparr>inventory := map (shift_row 1 NEW) (inventory d2)\<rparr>)"
    unfolding update_inventory_after_sale_def Let_def d2_names
    by (simp add: new_name was)
  have "sale_update None d sid req =
          (case update_inventory_after_sale d2 OLD NEW of Inl e \<Rightarrow> Inl e | Inr d3 \<Rightarrow> Inr (NEW, d3))"
    unfolding sale_update_def Let_def d2_def NEW_def
    by (simp add: tick_def old k nk paid)
  with trig show ?thesis by (simp add: transitionSaleStatus_def)
qed

lemma customers_set_total_eq:
  "customers (customers_set_total g d c) =
     (case c of
        None \<Rightarrow> customers d
      | Some cid \<Rightarrow>
          (case customers d cid of
             None \<Rightarrow> customers d
           | Some cu \<Rightarrow> (customers d)(cid \<mapsto> cu\<lparr>c_totalPurchases := g (c_totalPurchases cu)\<rparr>)))"
  by (simp add: customers_set_total_def split: option.splits)

lemma transition_payment_statuses:
  assumes "transitionSaleStatus f d sid req = (Success c s, d')"
  shows "payment_statuses d' = payment_statuses d"
proof -
  from assms have "sale_update f d sid req = Inr (s, d')"
    unfolding transitionSaleStatus_def by (auto split: sum.splits if_splits)
  then obtain OLD where "sales d sid = Some OLD"
    unfolding sale_update_def by (cases "sales d sid") (simp_all split: sum.splits)
  from transition_Success(10)[OF assms this] show ?thesis .
qed

section \<open>The statements of a stock adjustment\<close>

text \<open>A call that is accepted has written one audit entry, with the quantity the product
  had and the quantity it has now; \<^verbatim>\<open>set\<close> with a positive amount stores that amount,
  and a negative amount is refused.\<close>

lemma adjustStock_accepted:
  assumes "adjustStock f d pid req u = (Success c p, d')"
  shows "\<exists>old e. products d pid = Some old \<and> products d' pid = Some p \<and>
           inventoryLog d' = inventoryLog d @ [e] \<and>
           log_previousQuantity e = p_quantity old \<and> log_newQuantity e = p_quantity p"
  using assms
  unfolding adjustStock_def product_findUnique_def product_update_def inventoryLog_create_def Let_def
  by (auto split: if_splits sum.splits option.splits prod.splits)

lemma adjustStock_set:
  assumes "sr_operation req = ''set''" and "sr_quantity req = Some q" and "0 < q"
    and "products d pid = Some old"
  shows "\<exists>p d'. adjustStock None d pid req u = (Success 200 p, d') \<and>
           products d' pid = Some p \<and> p_quantity p = q"
  using assms
  unfolding adjustStock_def product_findUnique_def product_update_def inventoryLog_create_def Let_def
  by (simp add: tick_def)

lemma adjustStock_negative:
  assumes "sr_quantity req = Some q" and "q < 0"
  shows "adjustStock f d pid req u = (Failure 400 ''Valid quantity is required'', d)"
  using assms unfolding adjustStock_def by simp

section \<open>Create sale\<close>

text \<open>
  C1. A \<open>createSale\<close> call that answers with a failure, at whatever statement it failed,
  leaves the database as it was: no sale, no sale item, no stock quantity, no audit entry
  and no customer aggregate differs. A call that answers with success has made all of its
  writes: the sale is stored with one item for each line, every stock row is reduced by the
  quantities of the lines, and the customer, when there is one, is written.
\<close>

theorem createSale_atomic:
  "(case createSale A f d n u req of
      (Failure c m, d') \<Rightarrow> d' = d
    | (Success c s, d') \<Rightarrow>
        c = 201 \<and>
        sales d' = (sales d)(n \<mapsto> s) \<and>
        map si_productId (s_saleItems s) = map productId (items req) \<and>
        map si_quantity (s_saleItems s) = map quantity (items req) \<and>
        inventory d' = map (sold_row (items req)) (inventory d) \<and>
        (if truthy (customerId req)
         then \<exists>cu cu'. customers d (the (customerId req)) = Some cu \<and>
                customers d' = (customers d)(the (customerId req) \<mapsto> cu')
         else customers d' = customers d) \<and>
        inventoryLog d' = inventoryLog d)"
proof (cases rule: createSale_cases[of A f d req n u])
  case (thrown e)
  then show ?thesis by simp
next
  case (notfound pid)
  then show ?thesis by simp
next
  case (rolled_back f1 e)
  then show ?thesis by simp
next
  case (committed f1 s d')
  note b = createSale_body_Inr[OF committed(2)]
  note its = stored_items_lines[OF b(12)]
  from b(4) b(5) b(8) b(9) b(10) its(1) its(2) committed(3) show ?thesis by simp
qed

theorem createSale_atomic_witness:
  "fst (createSale exact_arith (Some 5) shop ''n1'' ''u1'' (order cart ''pe'' None))
     = Failure 500 ''Internal server error'' \<and>
   snd (createSale exact_arith (Some 5) shop ''n1'' ''u1'' (order cart ''pe'' None)) = shop \<and>
   fst (createSale exact_arith None shop ''n1'' ''u1'' (order cart ''pe'' None))
     = Success 201 (cart_sale ''pe'') \<and>
   sales (snd (createSale exact_arith None shop ''n1'' ''u1'' (order cart ''pe'' None))) ''n1''
     = Some (cart_sale ''pe'') \<and>
   inventory (snd (createSale exact_arith None shop ''n1'' ''u1'' (order cart ''pe'' None)))
     = map (sold_row cart) (inventory shop)"
proof -
  have h: "fst (createSale exact_arith (Some 5) shop ''n1'' ''u1'' (order cart ''pe'' None))
             = Failure 500 ''Internal server error''"
    by (simp add: run_defs)
  from createSale_atomic[where A = exact_arith and f = "Some 5" and d = shop and n = "''n1''"
         and u = "''u1''" and req = "order cart ''pe'' None"] h
  have 1: "snd (createSale exact_arith (Some 5) shop ''n1'' ''u1'' (order cart ''pe'' None)) = shop"
    by (auto split: prod.splits response.splits)
  have ok: "fst (createSale exact_arith None shop ''n1'' ''u1'' (order cart ''pe'' None))
              = Success 201 (cart_sale ''pe'')"
    by (simp add: run_defs)
  have its: "items (order cart ''pe'' None) = cart" by (simp add: order_def)
  from createSale_atomic[where A = exact_arith and f = None and d = shop and n = "''n1''"
         and u = "''u1''" and req = "order cart ''pe'' None"] ok
  have 2: "sales (snd (createSale exact_arith None shop ''n1'' ''u1'' (order cart ''pe'' None))) ''n1''
             = Some (cart_sale ''pe'') \<and>
           inventory (snd (createSale exact_arith None shop ''n1'' ''u1'' (order cart ''pe'' None)))
             = map (sold_row cart) (inventory shop)"
    by (auto simp: its split: prod.splits response.splits)
  from h 1 ok 2 show ?thesis by simp
qed

text \<open>
  C2, as the route has it. The route does not compare a line with the stock; the
  \<^verbatim>\<open>CHECK (quantity >= 0)\<close> of the \<^verbatim>\<open>inventory\<close> table does. When the quantities of the
  request are not negative and a line asks for more than a stock row of its product holds,
  the call fails and leaves the database as it was; the answer is the route's general
  \<^verbatim>\<open>500 Internal server error\<close> (or \<^verbatim>\<open>400\<close> when a product of the request is not in the
  catalog), not an answer of its own for a lack of stock. No call leaves a negative stock
  quantity behind when there was none before, and a call that succeeds has reduced every
  row by exactly the quantities asked, without clamping.
\<close>

theorem createSale_rejects_oversell:
  "(l \<in> set (items req) \<and> r \<in> set (inventory d) \<and> inv_productId r = productId l \<and>
    inv_quantity r < quantity l \<and> (\<forall>k \<in> set (items req). 0 \<le> quantity k) \<longrightarrow>
      snd (createSale A f d n u req) = d \<and>
      (fst (createSale A f d n u req) = Failure 500 ''Internal server error'' \<or>
       (\<exists>pid. fst (createSale A f d n u req) = Failure 400 (''Product '' @ pid @ '' not found'')))) \<and>
   ((\<forall>r \<in> set (inventory d). 0 \<le> inv_quantity r) \<longrightarrow>
      (\<forall>r \<in> set (inventory (snd (createSale A f d n u req))). 0 \<le> inv_quantity r)) \<and>
   (\<forall>s. fst (createSale A f d n u req) = Success 201 s \<longrightarrow>
      inventory (snd (createSale A f d n u req)) = map (sold_row (items req)) (inventory d))"
proof (intro conjI impI allI)
  assume "l \<in> set (items req) \<and> r \<in> set (inventory d) \<and> inv_productId r = productId l \<and>
    inv_quantity r < quantity l \<and> (\<forall>k \<in> set (items req). 0 \<le> quantity k)"
  then have l: "l \<in> set (items req)" and r: "r \<in> set (inventory d)"
    and p: "inv_productId r = productId l" and less: "inv_quantity r < quantity l"
    and nn: "\<forall>k \<in> set (items req). 0 \<le> quantity k"
    by simp_all
  have *: "snd (createSale A f d n u req) = d \<and>
      (fst (createSale A f d n u req) = Failure 500 ''Internal server error'' \<or>
       (\<exists>pid. fst (createSale A f d n u req) = Failure 400 (''Product '' @ pid @ '' not found'')))"
    by (rule createSale_oversell[OF l r p less nn])
  from * show "snd (createSale A f d n u req) = d" by simp
  from * show "fst (createSale A f d n u req) = Failure 500 ''Internal server error'' \<or>
       (\<exists>pid. fst (createSale A f d n u req) = Failure 400 (''Product '' @ pid @ '' not found''))"
    by simp
next
  assume "\<forall>r \<in> set (inventory d). 0 \<le> inv_quantity r"
  from createSale_stock_nonneg[OF this]
  show "\<forall>r \<in> set (inventory (snd (createSale A f d n u req))). 0 \<le> inv_quantity r" .
next
  fix s assume s: "fst (createSale A f d n u req) = Success 201 s"
  show "inventory (snd (createSale A f d n u req)) = map (sold_row (items req)) (inventory d)"
  proof (cases rule: createSale_cases[of A f d req n u])
    case (committed f1 s' d')
    with createSale_body_Inr(5)[OF committed(2)] show ?thesis by simp
  qed (use s in simp_all)
qed

theorem createSale_rejects_oversell_witness:
  "snd (createSale exact_arith None shop_low ''n1'' ''u1'' (order [line ''p1'' 5 100 (Some 8)] ''pe'' None))
     = shop_low \<and>
   fst (createSale exact_arith None shop_low ''n1'' ''u1'' (order [line ''p1'' 5 100 (Some 8)] ''pe'' None))
     = Failure 500 ''Internal server error'' \<and>
   0 \<le> inv_quantity (hd (inventory (snd (createSale exact_arith None shop ''n1'' ''u1'' (order cart ''pe'' None))))) \<and>
   inventory (snd (createSale exact_arith None shop ''n1'' ''u1'' (order cart ''pe'' None)))
     = map (sold_row cart) (inventory shop)"
proof -
  let ?req = "order [line ''p1'' 5 100 (Some 8)] ''pe'' None"
  let ?r = "\<lparr>inv_productId = ''p1'', inv_location = ''default'', inv_quantity = 3\<rparr>"
  have h: "line ''p1'' 5 100 (Some 8) \<in> set (items ?req) \<and> ?r \<in> set (inventory shop_low) \<and>
      inv_productId ?r = productId (line ''p1'' 5 100 (Some 8)) \<and>
      inv_quantity ?r < quantity (line ''p1'' 5 100 (Some 8)) \<and>
      (\<forall>k \<in> set (items ?req). 0 \<le> quantity k)"
    by (simp add: order_def line_def shop_low_def shop_def)
  have not400: "\<And>pid. fst (createSale exact_arith None shop_low ''n1'' ''u1'' ?req)
                  \<noteq> Failure 400 (''Product '' @ pid @ '' not found'')"
    by (simp add: run_defs)
  have ok: "\<forall>r \<in> set (inventory shop). 0 \<le> inv_quantity r" by (simp add: shop_def)
  have went: "fst (createSale exact_arith None shop ''n1'' ''u1'' (order cart ''pe'' None)) =
     Success 201 (cart_sale ''pe'')"
    by (simp add: run_defs)
  have items: "items (order cart ''pe'' None) = cart" by (simp add: order_def)
  from createSale_rejects_oversell[where A = exact_arith and l = "line ''p1'' 5 100 (Some 8)" and r = ?r
      and req = ?req and d = shop_low and f = None and n = "''n1''" and u = "''u1''"] h not400
  have 1: "snd (createSale exact_arith None shop_low ''n1'' ''u1'' ?req) = shop_low \<and>
           fst (createSale exact_arith None shop_low ''n1'' ''u1'' ?req) = Failure 500 ''Internal server error''"
    by blast
  from createSale_rejects_oversell[where A = exact_arith and req = "order cart ''pe'' None" and d = shop
      and f = None and n = "''n1''" and u = "''u1''"] ok went items
  have 2: "(\<forall>r \<in> set (inventory (snd (createSale exact_arith None shop ''n1'' ''u1'' (order cart ''pe'' None)))).
      0 \<le> inv_quantity r) \<and>
     inventory (snd (createSale exact_arith None shop ''n1'' ''u1'' (order cart ''pe'' None)))
       = map (sold_row cart) (inventory shop)"
    by simp
  then have "hd (inventory (snd (createSale exact_arith None shop ''n1'' ''u1'' (order cart ''pe'' None))))
      \<in> set (inventory (snd (createSale exact_arith None shop ''n1'' ''u1'' (order cart ''pe'' None))))"
    by (simp add: shop_def)
  with 2 have 3: "0 \<le> inv_quantity (hd (inventory (snd (createSale exact_arith None shop ''n1'' ''u1''
      (order cart ''pe'' None)))))"
    by blast
  from 1 2 3 show ?thesis by simp
qed

text \<open>With three pieces in stock a sale of five fails with the answer of a backend
  failure.\<close>

theorem createSale_oversell_counterexample:
  "fst (createSale exact_arith None shop_low ''n1'' ''u1'' (order [line ''p1'' 5 100 (Some 8)] ''pe'' None))
     = Failure 500 ''Internal server error'' \<and>
   fst (createSale exact_arith None shop_low ''n1'' ''u1'' (order [line ''p1'' 5 100 (Some 8)] ''pe'' None))
     = fst (createSale exact_arith (Some 0) shop ''n1'' ''u1'' (order [line ''p1'' 5 100 (Some 8)] ''pe'' None))"
  by (simp add: run_defs)

text \<open>
  C3, as the route has it. The route computes the total as subtotal plus tax minus the
  requested discount, the subtotal and the tax being added up from the catalog's prices
  and rates, and applies no floor. What is stored is what the \<^verbatim>\<open>DECIMAL(10,2)\<close> column
  receives of that Number. When the value the column receives is negative,
  \<^verbatim>\<open>CHECK (total_amount >= 0)\<close> refuses the sale: with every product of the request in the
  catalog the answer is \<^verbatim>\<open>500 Internal server error\<close> and the database is as before. So
  a stored total is never negative, and it is 0 only when the column receives 0. In
  the shop, for subtotal 100 and tax 8: with discount 10 the stored total is 98, with
  discount 200 the sale is refused, and with discount 108.004 the column rounds the
  computed \<open>-0.004\<close> to 0.00 and the sale is stored with total 0.
\<close>

theorem createSale_total_unclamped:
  "(\<forall>c s. fst (createSale A f d n u req) = Success c s \<longrightarrow>
      to_decimal A
        (num_sub A (num_add A (catalog_subtotal A d (items req)) (catalog_tax A d (items req)))
                   (requested_discount req))
        = Inr (Some (s_totalAmount s)) \<and>
      0 \<le> s_totalAmount s) \<and>
   (\<forall>v. (\<forall>l \<in> set (items req). products d (productId l) \<noteq> None) \<and>
        to_decimal A
          (num_sub A (num_add A (catalog_subtotal A d (items req)) (catalog_tax A d (items req)))
                     (requested_discount req))
          = Inr (Some v) \<and> v < 0 \<longrightarrow>
        createSale A f d n u req = (Failure 500 ''Internal server error'', d)) \<and>
   fst (createSale exact_arith None shop ''n1'' ''u1'' (order (single (Some 8)) ''co'' (Some 10)))
     = Success 201 (single_sale 98 (Some 10) (Some 8)) \<and>
   fst (createSale exact_arith None shop ''n1'' ''u1''
          (order (single (Some 8)) ''co'' (Some (27001 / 250))))
     = Success 201 (single_sale 0 (Some 108) (Some 8))"
proof (intro conjI allI impI)
  fix c s assume ok: "fst (createSale A f d n u req) = Success c s"
  from createSale_Success[OF ok] obtain f1 where
    body: "createSale_body A f1 n u req
         (totalAmount_of A (catalog_subtotal A d (items req)) (catalog_tax A d (items req))
            (requested_discount req))
         (catalog_tax A d (items req)) (requested_discount req) d
       = Inr (s, snd (createSale A f d n u req))"
    by blast
  note b = createSale_body_Inr[OF body]
  from b(2) show "to_decimal A
        (num_sub A (num_add A (catalog_subtotal A d (items req)) (catalog_tax A d (items req)))
                   (requested_discount req))
        = Inr (Some (s_totalAmount s))"
    by (simp add: totalAmount_of_def)
  from b(3) show "0 \<le> s_totalAmount s" .
next
  fix v
  assume h: "(\<forall>l \<in> set (items req). products d (productId l) \<noteq> None) \<and>
        to_decimal A
          (num_sub A (num_add A (catalog_subtotal A d (items req)) (catalog_tax A d (items req)))
                     (requested_discount req))
          = Inr (Some v) \<and> v < 0"
  show "createSale A f d n u req = (Failure 500 ''Internal server error'', d)"
  proof (cases rule: createSale_cases[of A f d req n u])
    case (thrown e)
    then show ?thesis by simp
  next
    case (notfound pid)
    from totals_loop_NotFound[OF notfound(1)] h show ?thesis by auto
  next
    case (rolled_back f1 e)
    then show ?thesis by simp
  next
    case (committed f1 s d')
    note b = createSale_body_Inr[OF committed(2)]
    from b(2) h have "s_totalAmount s = v" by (simp add: totalAmount_of_def)
    with b(3) h show ?thesis by simp
  qed
next
  show "fst (createSale exact_arith None shop ''n1'' ''u1'' (order (single (Some 8)) ''co'' (Some 10)))
     = Success 201 (single_sale 98 (Some 10) (Some 8))"
    by (simp add: run_defs)
next
  show "fst (createSale exact_arith None shop ''n1'' ''u1''
          (order (single (Some 8)) ''co'' (Some (27001 / 250))))
     = Success 201 (single_sale 0 (Some 108) (Some 8))"
    by (simp add: run_defs)
qed

lemma shop_single_totals:
  "catalog_subtotal exact_arith shop (single rate) = Fin 100"
  "catalog_tax exact_arith shop (single rate) = Fin 8"
  by (simp_all add: catalog_subtotal_def catalog_tax_def line_total_def line_tax_def
        shop_def single_def line_def exact_arith_def)

theorem createSale_total_unclamped_witness:
  "to_decimal exact_arith
     (num_sub exact_arith
        (num_add exact_arith (catalog_subtotal exact_arith shop (single (Some 8)))
                             (catalog_tax exact_arith shop (single (Some 8))))
        (Fin 10))
     = Inr (Some (s_totalAmount (single_sale 98 (Some 10) (Some 8)))) \<and>
   s_totalAmount (single_sale 98 (Some 10) (Some 8)) = 98 \<and>
   createSale exact_arith None shop ''n1'' ''u1'' (order (single (Some 8)) ''co'' (Some 200))
     = (Failure 500 ''Internal server error'', shop)"
proof -
  let ?r10 = "order (single (Some 8)) ''co'' (Some 10)"
  let ?r200 = "order (single (Some 8)) ''co'' (Some 200)"
  have ok: "fst (createSale exact_arith None shop ''n1'' ''u1'' ?r10)
              = Success 201 (single_sale 98 (Some 10) (Some 8))"
    by (simp add: run_defs)
  have i10: "items ?r10 = single (Some 8)" "requested_discount ?r10 = Fin 10"
    and i200: "items ?r200 = single (Some 8)" "requested_discount ?r200 = Fin 200"
    by (simp_all add: order_def requested_discount_def)
  from createSale_total_unclamped[where A = exact_arith and f = None and d = shop
      and n = "''n1''" and u = "''u1''" and req = ?r10] ok
  have 1: "to_decimal exact_arith
     (num_sub exact_arith
        (num_add exact_arith (catalog_subtotal exact_arith shop (single (Some 8)))
                             (catalog_tax exact_arith shop (single (Some 8))))
        (Fin 10))
     = Inr (Some (s_totalAmount (single_sale 98 (Some 10) (Some 8))))"
    by (simp add: i10)
  have found: "\<forall>l \<in> set (items ?r200). products shop (productId l) \<noteq> None"
    by (simp add: order_def single_def line_def shop_def)
  have neg: "to_decimal exact_arith
          (num_sub exact_arith
             (num_add exact_arith (catalog_subtotal exact_arith shop (items ?r200))
                                  (catalog_tax exact_arith shop (items ?r200)))
             (requested_discount ?r200))
          = Inr (Some (- 92)) \<and> (- 92 :: rat) < 0"
    unfolding i200 shop_single_totals
    by (simp add: exact_arith_def decimal_10_2_def round_cents_def)
  from createSale_total_unclamped[where A = exact_arith and f = None and d = shop
      and n = "''n1''" and u = "''u1''" and req = ?r200] found neg
  have 2: "createSale exact_arith None shop ''n1'' ''u1'' ?r200
             = (Failure 500 ''Internal server error'', shop)"
    by blast
  have 3: "s_totalAmount (single_sale 98 (Some 10) (Some 8)) = 98" by (simp add: single_sale_def)
  from 1 2 3 show ?thesis by simp
qed

text \<open>With subtotal 100, tax 8 and discount 200 the route computes \<open>-92\<close> and the
  sale is refused; no sale with total 0 is stored.\<close>

theorem createSale_total_counterexample:
  "totalAmount_of exact_arith (Fin 100) (Fin 8) (Fin 200) = Fin (- 92) \<and>
   createSale exact_arith None shop ''n1'' ''u1'' (order (single (Some 8)) ''co'' (Some 200))
     = (Failure 500 ''Internal server error'', shop)"
  by (simp add: run_defs)

text \<open>
  C7, as the route has it. \<^verbatim>\<open>updateMany\<close> selects by product alone: a successful
  \<open>createSale\<close> reduces every stock row of a line's product, at whatever location, by the
  line's quantity (a row loses the quantities of all lines of its product), leaves the rows
  of other products as they were, and writes no inventory audit entry.
\<close>

theorem createSale_stock_every_location:
  "\<forall>c s. fst (createSale A f d n u req) = Success c s \<longrightarrow>
     inventory (snd (createSale A f d n u req)) = map (sold_row (items req)) (inventory d) \<and>
     inventoryLog (snd (createSale A f d n u req)) = inventoryLog d"
proof (intro allI impI)
  fix c s assume ok: "fst (createSale A f d n u req) = Success c s"
  from createSale_Success[OF ok] obtain f1 where
    body: "createSale_body A f1 n u req
         (totalAmount_of A (catalog_subtotal A d (items req)) (catalog_tax A d (items req))
            (requested_discount req))
         (catalog_tax A d (items req)) (requested_discount req) d
       = Inr (s, snd (createSale A f d n u req))"
    by blast
  note b = createSale_body_Inr[OF body]
  from b(5) b(8)
  show "inventory (snd (createSale A f d n u req)) = map (sold_row (items req)) (inventory d) \<and>
     inventoryLog (snd (createSale A f d n u req)) = inventoryLog d"
    by simp
qed

theorem createSale_stock_every_location_witness:
  "inventory (snd (createSale exact_arith None shop ''n1'' ''u1'' (order cart ''co'' None))) =
     [\<lparr>inv_productId = ''p1'', inv_location = ''default'', inv_quantity = 5\<rparr>,
      \<lparr>inv_productId = ''p2'', inv_location = ''default'', inv_quantity = 7\<rparr>] \<and>
   inventoryLog (snd (createSale exact_arith None shop ''n1'' ''u1'' (order cart ''co'' None))) = []"
proof -
  have ok: "fst (createSale exact_arith None shop ''n1'' ''u1'' (order cart ''co'' None)) =
     Success 201 (cart_sale ''co'')"
    by (simp add: run_defs)
  have rows: "map (sold_row (items (order cart ''co'' None))) (inventory shop) =
     [\<lparr>inv_productId = ''p1'', inv_location = ''default'', inv_quantity = 5\<rparr>,
      \<lparr>inv_productId = ''p2'', inv_location = ''default'', inv_quantity = 7\<rparr>]"
    by (simp add: sold_row_def line_quantity_def order_def cart_def line_def shop_def)
  have log: "inventoryLog shop = []" by (simp add: shop_def)
  from createSale_stock_every_location[where A = exact_arith and f = None and d = shop and n = "''n1''"
      and u = "''u1''" and req = "order cart ''co'' None"] ok rows log
  show ?thesis by simp
qed

text \<open>Five pieces of a product stocked at two locations: both rows lose five, and
  the audit log stays empty.\<close>

theorem createSale_stock_counterexample:
  "inventory (snd (createSale exact_arith None shop_two_locations ''n1'' ''u1''
       (order [line ''p1'' 5 100 (Some 8)] ''co'' None))) =
     [\<lparr>inv_productId = ''p1'', inv_location = ''default'', inv_quantity = 5\<rparr>,
      \<lparr>inv_productId = ''p1'', inv_location = ''warehouse'', inv_quantity = 5\<rparr>,
      \<lparr>inv_productId = ''p2'', inv_location = ''default'', inv_quantity = 10\<rparr>] \<and>
   inventoryLog (snd (createSale exact_arith None shop_two_locations ''n1'' ''u1''
       (order [line ''p1'' 5 100 (Some 8)] ''co'' None))) = [] \<and>
   status_code (fst (createSale exact_arith None shop_two_locations ''n1'' ''u1''
       (order [line ''p1'' 5 100 (Some 8)] ''co'' None))) = 201"
  by (simp add: run_defs)

text \<open>
  C10, as the route has it. The tax amount of a sale item is computed as
  \<^verbatim>\<open>unitPrice * quantity * taxRate / 100\<close> with the \<^verbatim>\<open>taxRate\<close> of the request's line, the
  catalog is not consulted, and the row holds what the column receives of that Number. For
  a line without \<^verbatim>\<open>taxRate\<close> the Number is \<^verbatim>\<open>NaN\<close>; where arithmetic keeps \<^verbatim>\<open>NaN\<close> and
  the column takes it as \<^verbatim>\<open>NULL\<close>, the stored and answered tax amount of the item is
  \<^verbatim>\<open>NULL\<close>, not \<^verbatim>\<open>NaN\<close>. The tax amount of the sale header comes from the catalog's
  rates and need not be the sum of the items' amounts. In the shop, whose first product is
  taxed at 8 percent: a line stating rate 8 stores item tax 8, a line stating rate 0
  stores item tax 0 under a header tax of 8, and a line stating no rate stores
  \<^verbatim>\<open>NULL\<close>.
\<close>

theorem createSale_item_tax_from_request:
  "(\<forall>c s. fst (createSale A f d n u req) = Success c s \<longrightarrow>
      sales (snd (createSale A f d n u req)) n = Some s \<and>
      length (s_saleItems s) = length (items req) \<and>
      (\<forall>i < length (items req).
         to_decimal A
           (num_div A
              (num_mul A (num_mul A (Fin (unitPrice (items req ! i)))
                                    (Fin (of_int (quantity (items req ! i)))))
                         (case taxRate (items req ! i) of None \<Rightarrow> NaN | Some r \<Rightarrow> Fin r))
              (Fin 100))
           = Inr (si_taxAmount (s_saleItems s ! i))) \<and>
      to_decimal A (catalog_tax A d (items req)) = Inr (s_taxAmount s) \<and>
      ((\<forall>x. num_mul A x NaN = NaN) \<and> (\<forall>y. num_div A NaN y = NaN) \<and>
       to_decimal A NaN = Inr None \<longrightarrow>
         (\<forall>i < length (items req).
            taxRate (items req ! i) = None \<longrightarrow> si_taxAmount (s_saleItems s ! i) = None))) \<and>
   fst (createSale exact_arith None shop ''n1'' ''u1'' (order (single (Some 8)) ''co'' None))
     = Success 201 (single_sale 108 (Some 0) (Some 8)) \<and>
   fst (createSale exact_arith None shop ''n1'' ''u1'' (order (single (Some 0)) ''co'' None))
     = Success 201 (single_sale 108 (Some 0) (Some 0)) \<and>
   fst (createSale exact_arith None shop ''n1'' ''u1'' (order (single None) ''co'' None))
     = Success 201 (single_sale 108 (Some 0) None)"
proof (intro conjI)
  show "\<forall>c s. fst (createSale A f d n u req) = Success c s \<longrightarrow>
      sales (snd (createSale A f d n u req)) n = Some s \<and>
      length (s_saleItems s) = length (items req) \<and>
      (\<forall>i < length (items req).
         to_decimal A
           (num_div A
              (num_mul A (num_mul A (Fin (unitPrice (items req ! i)))
                                    (Fin (of_int (quantity (items req ! i)))))
                         (case taxRate (items req ! i) of None \<Rightarrow> NaN | Some r \<Rightarrow> Fin r))
              (Fin 100))
           = Inr (si_taxAmount (s_saleItems s ! i))) \<and>
      to_decimal A (catalog_tax A d (items req)) = Inr (s_taxAmount s) \<and>
      ((\<forall>x. num_mul A x NaN = NaN) \<and> (\<forall>y. num_div A NaN y = NaN) \<and>
       to_decimal A NaN = Inr None \<longrightarrow>
         (\<forall>i < length (items req).
            taxRate (items req ! i) = None \<longrightarrow> si_taxAmount (s_saleItems s ! i) = None))"
  proof (intro allI impI)
    fix c s assume ok: "fst (createSale A f d n u req) = Success c s"
    note t = createSale_item_tax[OF ok]
    have "(\<forall>x. num_mul A x NaN = NaN) \<and> (\<forall>y. num_div A NaN y = NaN) \<and>
       to_decimal A NaN = Inr None \<longrightarrow>
         (\<forall>i < length (items req).
            taxRate (items req ! i) = None \<longrightarrow> si_taxAmount (s_saleItems s ! i) = None)"
    proof (intro impI allI)
      fix i
      assume nan: "(\<forall>x. num_mul A x NaN = NaN) \<and> (\<forall>y. num_div A NaN y = NaN) \<and>
                   to_decimal A NaN = Inr None"
        and i: "i < length (items req)" and none: "taxRate (items req ! i) = None"
      from t(3)[OF i] none nan show "si_taxAmount (s_saleItems s ! i) = None" by simp
    qed
    then have e: "(\<forall>x. num_mul A x NaN = NaN) \<and> (\<forall>y. num_div A NaN y = NaN) \<and>
       to_decimal A NaN = Inr None \<longrightarrow>
         (\<forall>i < length (items req).
            taxRate (items req ! i) = None \<longrightarrow> si_taxAmount (s_saleItems s ! i) = None)" .
    show "sales (snd (createSale A f d n u req)) n = Some s \<and>
      length (s_saleItems s) = length (items req) \<and>
      (\<forall>i < length (items req).
         to_decimal A
           (num_div A
              (num_mul A (num_mul A (Fin (unitPrice (items req ! i)))
                                    (Fin (of_int (quantity (items req ! i)))))
                         (case taxRate (items req ! i) of None \<Rightarrow> NaN | Some r \<Rightarrow> Fin r))
              (Fin 100))
           = Inr (si_taxAmount (s_saleItems s ! i))) \<and>
      to_decimal A (catalog_tax A d (items req)) = Inr (s_taxAmount s) \<and>
      ((\<forall>x. num_mul A x NaN = NaN) \<and> (\<forall>y. num_div A NaN y = NaN) \<and>
       to_decimal A NaN = Inr None \<longrightarrow>
         (\<forall>i < length (items req).
            taxRate (items req ! i) = None \<longrightarrow> si_taxAmount (s_saleItems s ! i) = None))"
    proof (intro conjI)
      show "sales (snd (createSale A f d n u req)) n = Some s" by (rule t(1))
      show "length (s_saleItems s) = length (items req)" by (rule t(2))
      show "\<forall>i < length (items req).
         to_decimal A
           (num_div A
              (num_mul A (num_mul A (Fin (unitPrice (items req ! i)))
                                    (Fin (of_int (quantity (items req ! i)))))
                         (case taxRate (items req ! i) of None \<Rightarrow> NaN | Some r \<Rightarrow> Fin r))
              (Fin 100))
           = Inr (si_taxAmount (s_saleItems s ! i))"
        using t(3) by blast
      show "to_decimal A (catalog_tax A d (items req)) = Inr (s_taxAmount s)" by (rule t(4))
      show "(\<forall>x. num_mul A x NaN = NaN) \<and> (\<forall>y. num_div A NaN y = NaN) \<and>
       to_decimal A NaN = Inr None \<longrightarrow>
         (\<forall>i < length (items req).
            taxRate (items req ! i) = None \<longrightarrow> si_taxAmount (s_saleItems s ! i) = None)"
        by (rule e)
    qed
  qed
  show "fst (createSale exact_arith None shop ''n1'' ''u1'' (order (single (Some 8)) ''co'' None))
     = Success 201 (single_sale 108 (Some 0) (Some 8))"
    by (simp add: run_defs)
  show "fst (createSale exact_arith None shop ''n1'' ''u1'' (order (single (Some 0)) ''co'' None))
     = Success 201 (single_sale 108 (Some 0) (Some 0))"
    by (simp add: run_defs)
  show "fst (createSale exact_arith None shop ''n1'' ''u1'' (order (single None) ''co'' None))
     = Success 201 (single_sale 108 (Some 0) None)"
    by (simp add: run_defs)
qed

theorem createSale_item_tax_from_request_witness:
  "fst (createSale exact_arith None shop ''n1'' ''u1'' (order (single None) ''co'' None))
     = Success 201 (single_sale 108 (Some 0) None) \<and>
   sales (snd (createSale exact_arith None shop ''n1'' ''u1'' (order (single None) ''co'' None))) ''n1''
     = Some (single_sale 108 (Some 0) None) \<and>
   si_taxAmount (s_saleItems (single_sale 108 (Some 0) None) ! 0) = None \<and>
   to_decimal exact_arith (catalog_tax exact_arith shop (single None))
     = Inr (s_taxAmount (single_sale 108 (Some 0) None)) \<and>
   s_taxAmount (single_sale 108 (Some 0) None) = Some 8"
proof -
  let ?req = "order (single None) ''co'' None"
  let ?s = "single_sale 108 (Some 0) None"
  have ok: "fst (createSale exact_arith None shop ''n1'' ''u1'' ?req) = Success 201 ?s"
    by (simp add: run_defs)
  have its: "items ?req = single None" by (simp add: order_def)
  have len: "0 < length (items ?req)" and rate: "taxRate (items ?req ! 0) = None"
    by (simp_all add: order_def single_def line_def)
  have nan: "(\<forall>x. num_mul exact_arith x NaN = NaN) \<and> (\<forall>y. num_div exact_arith NaN y = NaN) \<and>
       to_decimal exact_arith NaN = Inr None"
  proof (intro conjI allI)
    fix x show "num_mul exact_arith x NaN = NaN" by (cases x) (simp_all add: exact_arith_def)
    fix y show "num_div exact_arith NaN y = NaN" by (simp add: exact_arith_def)
    show "to_decimal exact_arith NaN = Inr None" by (simp add: exact_arith_def)
  qed
  from createSale_item_tax_from_request[where A = exact_arith and f = None and d = shop
      and n = "''n1''" and u = "''u1''" and req = ?req] ok
  have all: "sales (snd (createSale exact_arith None shop ''n1'' ''u1'' ?req)) ''n1'' = Some ?s \<and>
      to_decimal exact_arith (catalog_tax exact_arith shop (items ?req)) = Inr (s_taxAmount ?s) \<and>
      ((\<forall>x. num_mul exact_arith x NaN = NaN) \<and> (\<forall>y. num_div exact_arith NaN y = NaN) \<and>
       to_decimal exact_arith NaN = Inr None \<longrightarrow>
         (\<forall>i < length (items ?req).
            taxRate (items ?req ! i) = None \<longrightarrow> si_taxAmount (s_saleItems ?s ! i) = None))"
    by blast
  with nan len rate have 1: "si_taxAmount (s_saleItems ?s ! 0) = None" by blast
  have 2: "s_taxAmount ?s = Some 8" by (simp add: single_sale_def)
  from ok all 1 2 show ?thesis by (simp add: its)
qed

text \<open>A line without \<^verbatim>\<open>taxRate\<close>: the sale is created, and the tax amount of its item is
  \<^verbatim>\<open>NULL\<close> in the row and in the answer.\<close>

theorem createSale_item_tax_counterexample:
  "fst (createSale exact_arith None shop ''n1'' ''u1'' (order (single None) ''co'' None))
     = Success 201 (single_sale 108 (Some 0) None) \<and>
   sales (snd (createSale exact_arith None shop ''n1'' ''u1'' (order (single None) ''co'' None))) ''n1''
     = Some (single_sale 108 (Some 0) None) \<and>
   map si_taxAmount (s_saleItems (single_sale 108 (Some 0) None)) = [None]"
  by (simp add: run_defs)

section \<open>Status transitions\<close>

text \<open>
  C4. Setting a completed sale to completed again (or leaving its status out of the
  request) changes no stock quantity and no customer, whatever the outcome of the call. And
  when a pending sale has been set to completed, setting it to cancelled puts every stock
  row back to the quantity it had before the completion; that second call goes through
  when the backend is there, no quantity was negative before and the payment status it
  writes, if any, is one of \<^verbatim>\<open>payment_statuses\<close>.
\<close>

theorem status_effects_idempotent_and_inverse:
  "(sales d sid = Some OLD \<and> status_name d (s_saleStatusId OLD) = Some ''completed'' \<and>
    (case new_saleStatusId req of None \<Rightarrow> True | Some k \<Rightarrow> sale_statuses d k = Some ''completed'') \<longrightarrow>
      inventory (snd (transitionSaleStatus f d sid req)) = inventory d \<and>
      customers (snd (transitionSaleStatus f d sid req)) = customers d) \<and>
   (sales d sid = Some OLD \<and> status_name d (s_saleStatusId OLD) = Some ''pending'' \<and>
    new_saleStatusId req1 = Some kc \<and> sale_statuses d kc = Some ''completed'' \<and>
    new_saleStatusId req2 = Some kx \<and> sale_statuses d kx = Some ''cancelled'' \<and>
    transitionSaleStatus f1 d sid req1 = (Success c1 s1, d1) \<longrightarrow>
      (\<forall>f2 c2 s2 d2.
         transitionSaleStatus f2 d1 sid req2 = (Success c2 s2, d2) \<longrightarrow> inventory d2 = inventory d) \<and>
      ((\<forall>r \<in> set (inventory d). 0 \<le> inv_quantity r) \<and>
       refers (payment_statuses d) (new_paymentStatusId req2) \<longrightarrow>
         (\<exists>s2 d2. transitionSaleStatus None d1 sid req2 = (Success 200 s2, d2) \<and>
                  inventory d2 = inventory d)))"
proof (intro conjI impI)
  assume h: "sales d sid = Some OLD \<and> status_name d (s_saleStatusId OLD) = Some ''completed'' \<and>
    (case new_saleStatusId req of None \<Rightarrow> True | Some k \<Rightarrow> sale_statuses d k = Some ''completed'')"
  then have old: "sales d sid = Some OLD"
    and was: "status_name d (s_saleStatusId OLD) = Some ''completed''"
    and now: "case new_saleStatusId req of None \<Rightarrow> True | Some k \<Rightarrow> sale_statuses d k = Some ''completed''"
    by simp_all
  have same: "inventory (snd (transitionSaleStatus f d sid req)) = inventory d \<and>
        customers (snd (transitionSaleStatus f d sid req)) = customers d"
  proof (cases "fst (transitionSaleStatus f d sid req)")
    case (Failure c m)
    from transition_Failure[OF this] show ?thesis by simp
  next
    case (Success c s)
    then have run: "transitionSaleStatus f d sid req = (Success c s, snd (transitionSaleStatus f d sid req))"
      by (simp add: prod_eq_iff)
    have name: "status_name d (s_saleStatusId s) = Some ''completed''"
      using transition_Success(4)[OF run old] was now
      by (cases "new_saleStatusId req") (simp_all add: status_name_def)
    from transition_other[OF run old] name was show ?thesis by simp
  qed
  from same show "inventory (snd (transitionSaleStatus f d sid req)) = inventory d" by simp
  from same show "customers (snd (transitionSaleStatus f d sid req)) = customers d" by simp
next
  assume h: "sales d sid = Some OLD \<and> status_name d (s_saleStatusId OLD) = Some ''pending'' \<and>
    new_saleStatusId req1 = Some kc \<and> sale_statuses d kc = Some ''completed'' \<and>
    new_saleStatusId req2 = Some kx \<and> sale_statuses d kx = Some ''cancelled'' \<and>
    transitionSaleStatus f1 d sid req1 = (Success c1 s1, d1)"
  then have old: "sales d sid = Some OLD" and was: "status_name d (s_saleStatusId OLD) = Some ''pending''"
    and r1: "new_saleStatusId req1 = Some kc" and kc: "sale_statuses d kc = Some ''completed''"
    and r2: "new_saleStatusId req2 = Some kx" and kx: "sale_statuses d kx = Some ''cancelled''"
    and first: "transitionSaleStatus f1 d sid req1 = (Success c1 s1, d1)"
    by simp_all
  note t1 = transition_Success[OF first old]
  have name1: "status_name d (s_saleStatusId s1) = Some ''completed''"
    using transition_new_name[OF first old r1] kc by simp
  from was have was': "status_name d (s_saleStatusId OLD) \<noteq> Some ''completed''" by simp
  have inv1: "inventory d1 = map (shift_row (- 1) OLD) (inventory d)"
    by (rule transition_entering(1)[OF first old was' name1])
  have sales1: "sales d1 sid = Some s1" using t1(9) by simp
  have names1: "\<And>i. status_name d1 i = status_name d i"
    by (simp add: status_name_def t1(8) split: option.splits)
  have undone: "map (shift_row 1 s1) (inventory d1) = inventory d"
    by (simp add: inv1 shift_row_items[OF t1(1)] shift_row_back comp_def)
  have restored: "inventory d2 = inventory d"
    if second: "transitionSaleStatus f2 d1 sid req2 = (Success c2 s2, d2)" for f2 c2 s2 d2
  proof -
    have name2: "status_name d1 (s_saleStatusId s2) = Some ''cancelled''"
      using transition_new_name[OF second sales1 r2] kx t1(8) by simp
    from transition_leaving(1)[OF second sales1 _ name2] name1 undone
    show ?thesis by (simp add: names1)
  qed
  then show "\<forall>f2 c2 s2 d2.
         transitionSaleStatus f2 d1 sid req2 = (Success c2 s2, d2) \<longrightarrow> inventory d2 = inventory d"
    by blast
  assume "(\<forall>r \<in> set (inventory d). 0 \<le> inv_quantity r) \<and>
       refers (payment_statuses d) (new_paymentStatusId req2)"
  then have nn: "\<forall>r \<in> set (inventory d). 0 \<le> inv_quantity r"
    and pay: "refers (payment_statuses d) (new_paymentStatusId req2)"
    by simp_all
  have pay1: "refers (payment_statuses d1) (new_paymentStatusId req2)"
    using pay transition_payment_statuses[OF first] by simp
  have room: "\<forall>r \<in> set (inventory d1). 0 \<le> inv_quantity (shift_row 1 s1 r)"
    using nn by (simp add: inv1 shift_row_items[OF t1(1)] shift_row_back)
  have "\<exists>s d'. transitionSaleStatus None d1 sid req2 = (Success 200 s, d')"
  proof (rule transition_cancel_goes_through[OF sales1 _ r2 _ pay1 room])
    show "status_name d1 (s_saleStatusId s1) = Some ''completed''" by (simp add: names1 name1)
    show "sale_statuses d1 kx = Some ''cancelled''" by (simp add: t1(8) kx)
  qed
  then obtain s2 d2 where "transitionSaleStatus None d1 sid req2 = (Success 200 s2, d2)"
    by blast
  with restored[OF this] show "\<exists>s2 d2. transitionSaleStatus None d1 sid req2 = (Success 200 s2, d2) \<and>
                  inventory d2 = inventory d"
    by blast
qed

theorem status_effects_idempotent_and_inverse_witness:
  "inventory (snd (transitionSaleStatus None (shop_with_sale ''co'') ''n1'' (to_status ''co'')))
     = inventory (shop_with_sale ''co'') \<and>
   customers (snd (transitionSaleStatus None (shop_with_sale ''co'') ''n1'' (to_status ''co'')))
     = customers (shop_with_sale ''co'') \<and>
   inventory (snd (transitionSaleStatus None (shop_with_sale ''pe'') ''n1'' (to_status ''co''))) =
     [\<lparr>inv_productId = ''p1'', inv_location = ''default'', inv_quantity = 5\<rparr>,
      \<lparr>inv_productId = ''p2'', inv_location = ''default'', inv_quantity = 7\<rparr>] \<and>
   inventory (snd (transitionSaleStatus None
       (snd (transitionSaleStatus None (shop_with_sale ''pe'') ''n1'' (to_status ''co'')))
       ''n1'' (to_status ''ca'')))
     = inventory (shop_with_sale ''pe'')"
proof -
  let ?done = "shop_with_sale ''co''" and ?open = "shop_with_sale ''pe''"
  let ?OLD = "cart_sale"
  have h1: "sales ?done ''n1'' = Some (?OLD ''co'') \<and>
      status_name ?done (s_saleStatusId (?OLD ''co'')) = Some ''completed'' \<and>
      (case new_saleStatusId (to_status ''co'') of None \<Rightarrow> True
       | Some k \<Rightarrow> sale_statuses ?done k = Some ''completed'')"
    by (simp add: run_defs)
  from status_effects_idempotent_and_inverse[where d = ?done and sid = "''n1''"
      and OLD = "?OLD ''co''" and req = "to_status ''co''" and f = None] h1
  have 1: "inventory (snd (transitionSaleStatus None ?done ''n1'' (to_status ''co''))) = inventory ?done \<and>
           customers (snd (transitionSaleStatus None ?done ''n1'' (to_status ''co''))) = customers ?done"
    by blast
  have "\<exists>s. fst (transitionSaleStatus None ?open ''n1'' (to_status ''co'')) = Success 200 s"
    by (simp add: run_defs)
  then obtain s1 where
    first: "transitionSaleStatus None ?open ''n1'' (to_status ''co'') =
              (Success 200 s1, snd (transitionSaleStatus None ?open ''n1'' (to_status ''co'')))"
    by (auto simp: prod_eq_iff)
  have h2: "sales ?open ''n1'' = Some (?OLD ''pe'') \<and>
      status_name ?open (s_saleStatusId (?OLD ''pe'')) = Some ''pending'' \<and>
      new_saleStatusId (to_status ''co'') = Some ''co'' \<and> sale_statuses ?open ''co'' = Some ''completed'' \<and>
      new_saleStatusId (to_status ''ca'') = Some ''ca'' \<and> sale_statuses ?open ''ca'' = Some ''cancelled''"
    by (simp add: run_defs)
  have nn: "(\<forall>r \<in> set (inventory ?open). 0 \<le> inv_quantity r) \<and>
      refers (payment_statuses ?open) (new_paymentStatusId (to_status ''ca''))"
    by (simp add: run_defs)
  from status_effects_idempotent_and_inverse[where d = ?open and sid = "''n1''"
      and OLD = "?OLD ''pe''" and ?req1.0 = "to_status ''co''" and ?req2.0 = "to_status ''ca''"
      and kc = "''co''" and kx = "''ca''" and ?f1.0 = None and ?c1.0 = 200 and ?s1.0 = s1
      and ?d1.0 = "snd (transitionSaleStatus None ?open ''n1'' (to_status ''co''))"] h2 first nn
  have "\<exists>s2 d2. transitionSaleStatus None
           (snd (transitionSaleStatus None ?open ''n1'' (to_status ''co''))) ''n1'' (to_status ''ca'')
             = (Success 200 s2, d2) \<and> inventory d2 = inventory ?open"
    by blast
  then have 2: "inventory (snd (transitionSaleStatus None
       (snd (transitionSaleStatus None ?open ''n1'' (to_status ''co''))) ''n1'' (to_status ''ca'')))
     = inventory ?open"
    by auto
  have 3: "inventory (snd (transitionSaleStatus None ?open ''n1'' (to_status ''co''))) =
     [\<lparr>inv_productId = ''p1'', inv_location = ''default'', inv_quantity = 5\<rparr>,
      \<lparr>inv_productId = ''p2'', inv_location = ''default'', inv_quantity = 7\<rparr>]"
    by (simp add: run_defs)
  from 1 2 3 show ?thesis by simp
qed

text \<open>
  C6, as the triggers have it. When a completed sale is set to cancelled and the update
  goes through, every stock row gains the quantities the sale's items hold of its product,
  and the sale's customer has \<^verbatim>\<open>total_purchases\<close> reduced by the sale's total, not below
  0; the loyalty points stay as they are. When it is set to refunded, no stock row and no
  customer changes: the triggers have a branch for \<^verbatim>\<open>cancelled\<close> only and write
  \<^verbatim>\<open>total_purchases\<close> only.
\<close>

theorem leaving_completed_effects:
  "sales d sid = Some OLD \<and> status_name d (s_saleStatusId OLD) = Some ''completed'' \<and>
   new_saleStatusId req = Some k \<and> transitionSaleStatus f d sid req = (Success c s, d') \<longrightarrow>
     (sale_statuses d k = Some ''cancelled'' \<longrightarrow>
        inventory d' =
          map (\<lambda>r. r\<lparr>inv_quantity := inv_quantity r + sold_quantity OLD (inv_productId r)\<rparr>)
              (inventory d) \<and>
        customers d' =
          (case s_customerId OLD of
             None \<Rightarrow> customers d
           | Some cid \<Rightarrow>
               (case customers d cid of
                  None \<Rightarrow> customers d
                | Some cu \<Rightarrow>
                    (customers d)(cid \<mapsto>
                       cu\<lparr>c_totalPurchases := max (c_totalPurchases cu - s_totalAmount OLD) 0\<rparr>)))) \<and>
     (sale_statuses d k = Some ''refunded'' \<longrightarrow>
        inventory d' = inventory d \<and> customers d' = customers d)"
proof (intro impI)
  assume h: "sales d sid = Some OLD \<and> status_name d (s_saleStatusId OLD) = Some ''completed'' \<and>
   new_saleStatusId req = Some k \<and> transitionSaleStatus f d sid req = (Success c s, d')"
  then have old: "sales d sid = Some OLD"
    and was: "status_name d (s_saleStatusId OLD) = Some ''completed''"
    and k: "new_saleStatusId req = Some k"
    and run: "transitionSaleStatus f d sid req = (Success c s, d')"
    by simp_all
  note name = transition_new_name[OF run old k]
  have cancelled: "inventory d' =
          map (\<lambda>r. r\<lparr>inv_quantity := inv_quantity r + sold_quantity OLD (inv_productId r)\<rparr>)
              (inventory d) \<and>
        customers d' =
          (case s_customerId OLD of
             None \<Rightarrow> customers d
           | Some cid \<Rightarrow>
               (case customers d cid of
                  None \<Rightarrow> customers d
                | Some cu \<Rightarrow>
                    (customers d)(cid \<mapsto>
                       cu\<lparr>c_totalPurchases := max (c_totalPurchases cu - s_totalAmount OLD) 0\<rparr>)))"
    if "sale_statuses d k = Some ''cancelled''"
  proof -
    from that name have now: "status_name d (s_saleStatusId s) = Some ''cancelled''" by simp
    from transition_leaving[OF run old was now] show ?thesis
      by (simp add: customers_set_total_eq shift_row_add)
  qed
  have refunded: "inventory d' = inventory d \<and> customers d' = customers d"
    if "sale_statuses d k = Some ''refunded''"
  proof -
    from that name have now: "status_name d (s_saleStatusId s) = Some ''refunded''" by simp
    from transition_other[OF run old] now was show ?thesis by simp
  qed
  from cancelled refunded
  show "(sale_statuses d k = Some ''cancelled'' \<longrightarrow>
        inventory d' =
          map (\<lambda>r. r\<lparr>inv_quantity := inv_quantity r + sold_quantity OLD (inv_productId r)\<rparr>)
              (inventory d) \<and>
        customers d' =
          (case s_customerId OLD of
             None \<Rightarrow> customers d
           | Some cid \<Rightarrow>
               (case customers d cid of
                  None \<Rightarrow> customers d
                | Some cu \<Rightarrow>
                    (customers d)(cid \<mapsto>
                       cu\<lparr>c_totalPurchases := max (c_totalPurchases cu - s_totalAmount OLD) 0\<rparr>)))) \<and>
     (sale_statuses d k = Some ''refunded'' \<longrightarrow>
        inventory d' = inventory d \<and> customers d' = customers d)"
    by blast
qed

theorem leaving_completed_effects_witness:
  "inventory (snd (transitionSaleStatus None (shop_with_sale ''co'') ''n1'' (to_status ''ca''))) =
     [\<lparr>inv_productId = ''p1'', inv_location = ''default'', inv_quantity = 15\<rparr>,
      \<lparr>inv_productId = ''p2'', inv_location = ''default'', inv_quantity = 13\<rparr>] \<and>
   customers (snd (transitionSaleStatus None (shop_with_sale ''co'') ''n1'' (to_status ''ca''))) ''c1''
     = Some \<lparr>c_loyaltyPoints = 60, c_totalPurchases = 0\<rparr> \<and>
   inventory (snd (transitionSaleStatus None (shop_with_sale ''co'') ''n1'' (to_status ''re'')))
     = inventory (shop_with_sale ''co'') \<and>
   customers (snd (transitionSaleStatus None (shop_with_sale ''co'') ''n1'' (to_status ''re'')))
     = customers (shop_with_sale ''co'')"
proof -
  let ?d = "shop_with_sale ''co''"
  let ?OLD = "cart_sale ''co''"
  have facts: "sales ?d ''n1'' = Some ?OLD" "status_name ?d (s_saleStatusId ?OLD) = Some ''completed''"
    "new_saleStatusId (to_status ''ca'') = Some ''ca''" "sale_statuses ?d ''ca'' = Some ''cancelled''"
    "new_saleStatusId (to_status ''re'') = Some ''re''" "sale_statuses ?d ''re'' = Some ''refunded''"
    by (simp_all add: run_defs)
  have "\<exists>s. fst (transitionSaleStatus None ?d ''n1'' (to_status ''ca'')) = Success 200 s"
    by (simp add: run_defs)
  then obtain s1 where
    ca: "transitionSaleStatus None ?d ''n1'' (to_status ''ca'') =
           (Success 200 s1, snd (transitionSaleStatus None ?d ''n1'' (to_status ''ca'')))"
    by (auto simp: prod_eq_iff)
  have "\<exists>s. fst (transitionSaleStatus None ?d ''n1'' (to_status ''re'')) = Success 200 s"
    by (simp add: run_defs)
  then obtain s2 where
    re: "transitionSaleStatus None ?d ''n1'' (to_status ''re'') =
           (Success 200 s2, snd (transitionSaleStatus None ?d ''n1'' (to_status ''re'')))"
    by (auto simp: prod_eq_iff)
  from leaving_completed_effects[where d = ?d and sid = "''n1''" and OLD = ?OLD
      and req = "to_status ''ca''" and k = "''ca''" and f = None and c = 200 and s = s1
      and d' = "snd (transitionSaleStatus None ?d ''n1'' (to_status ''ca''))"] facts ca
  have 1: "inventory (snd (transitionSaleStatus None ?d ''n1'' (to_status ''ca''))) =
          map (\<lambda>r. r\<lparr>inv_quantity := inv_quantity r + sold_quantity ?OLD (inv_productId r)\<rparr>)
              (inventory ?d) \<and>
        customers (snd (transitionSaleStatus None ?d ''n1'' (to_status ''ca''))) =
          (case s_customerId ?OLD of
             None \<Rightarrow> customers ?d
           | Some cid \<Rightarrow>
               (case customers ?d cid of
                  None \<Rightarrow> customers ?d
                | Some cu \<Rightarrow>
                    (customers ?d)(cid \<mapsto>
                       cu\<lparr>c_totalPurchases := max (c_totalPurchases cu - s_totalAmount ?OLD) 0\<rparr>)))"
    by blast
  from leaving_completed_effects[where d = ?d and sid = "''n1''" and OLD = ?OLD
      and req = "to_status ''re''" and k = "''re''" and f = None and c = 200 and s = s2
      and d' = "snd (transitionSaleStatus None ?d ''n1'' (to_status ''re''))"] facts re
  have 2: "inventory (snd (transitionSaleStatus None ?d ''n1'' (to_status ''re''))) = inventory ?d \<and>
           customers (snd (transitionSaleStatus None ?d ''n1'' (to_status ''re''))) = customers ?d"
    by blast
  from 1 have 3: "inventory (snd (transitionSaleStatus None ?d ''n1'' (to_status ''ca''))) =
     [\<lparr>inv_productId = ''p1'', inv_location = ''default'', inv_quantity = 15\<rparr>,
      \<lparr>inv_productId = ''p2'', inv_location = ''default'', inv_quantity = 13\<rparr>]"
    by (simp add: run_defs)
  from 1 have 4: "customers (snd (transitionSaleStatus None ?d ''n1'' (to_status ''ca''))) ''c1''
     = Some \<lparr>c_loyaltyPoints = 60, c_totalPurchases = 0\<rparr>"
    by (simp add: run_defs)
  from 2 3 4 show ?thesis by simp
qed

text \<open>A completed sale set to refunded leaves stock and customer as they were, and the
  same sale set to cancelled leaves the 60 loyalty points.\<close>

theorem leaving_completed_counterexample:
  "inventory (snd (transitionSaleStatus None (shop_with_sale ''co'') ''n1'' (to_status ''re''))) =
     [\<lparr>inv_productId = ''p1'', inv_location = ''default'', inv_quantity = 10\<rparr>,
      \<lparr>inv_productId = ''p2'', inv_location = ''default'', inv_quantity = 10\<rparr>] \<and>
   customers (snd (transitionSaleStatus None (shop_with_sale ''co'') ''n1'' (to_status ''re''))) ''c1''
     = Some \<lparr>c_loyaltyPoints = 60, c_totalPurchases = 600\<rparr> \<and>
   status_code (fst (transitionSaleStatus None (shop_with_sale ''co'') ''n1'' (to_status ''re''))) = 200 \<and>
   customers (snd (transitionSaleStatus None (shop_with_sale ''co'') ''n1'' (to_status ''ca''))) ''c1''
     = Some \<lparr>c_loyaltyPoints = 60, c_totalPurchases = 0\<rparr>"
  by (simp add: run_defs)

text \<open>
  C5, on the shop. A sale created as pending takes its quantities from the stock and
  credits the customer at once; completing it afterwards takes the quantities again and
  adds the total again.
\<close>

theorem createSale_then_complete_applies_twice:
  "inventory (snd (createSale exact_arith None shop ''n1'' ''u1'' (order cart ''pe'' None))) =
     [\<lparr>inv_productId = ''p1'', inv_location = ''default'', inv_quantity = 5\<rparr>,
      \<lparr>inv_productId = ''p2'', inv_location = ''default'', inv_quantity = 7\<rparr>] \<and>
   customers (snd (createSale exact_arith None shop ''n1'' ''u1'' (order cart ''pe'' None))) ''c1''
     = Some \<lparr>c_loyaltyPoints = 60, c_totalPurchases = 600\<rparr> \<and>
   inventory (snd (transitionSaleStatus None
       (snd (createSale exact_arith None shop ''n1'' ''u1'' (order cart ''pe'' None))) ''n1'' (to_status ''co''))) =
     [\<lparr>inv_productId = ''p1'', inv_location = ''default'', inv_quantity = 0\<rparr>,
      \<lparr>inv_productId = ''p2'', inv_location = ''default'', inv_quantity = 4\<rparr>] \<and>
   customers (snd (transitionSaleStatus None
       (snd (createSale exact_arith None shop ''n1'' ''u1'' (order cart ''pe'' None))) ''n1'' (to_status ''co''))) ''c1''
     = Some \<lparr>c_loyaltyPoints = 60, c_totalPurchases = 1200\<rparr>"
  by (simp add: run_defs)

section \<open>Adjust stock\<close>

text \<open>
  C8, on the shop. Ten pieces, five to add, and a backend that fails the third statement
  of the call, the write of the audit entry: the answer is \<^verbatim>\<open>500 Failed to update stock\<close>,
  the product has fifteen pieces and the audit log is empty.
\<close>

theorem adjustStock_log_failure_keeps_quantity:
  "fst (adjustStock (Some 2) shop ''p1''
         \<lparr>sr_quantity = Some 5, sr_operation = ''add'', sr_reason = None\<rparr> ''u1'')
     = Failure 500 ''Failed to update stock'' \<and>
   products (snd (adjustStock (Some 2) shop ''p1''
         \<lparr>sr_quantity = Some 5, sr_operation = ''add'', sr_reason = None\<rparr> ''u1'')) ''p1''
     = Some \<lparr>p_price = 100, p_taxRate = 8, p_quantity = 15\<rparr> \<and>
   inventoryLog (snd (adjustStock (Some 2) shop ''p1''
         \<lparr>sr_quantity = Some 5, sr_operation = ''add'', sr_reason = None\<rparr> ''u1'')) = []"
  by (simp add: run_defs)

text \<open>
  C9, on the shop. Setting the stock to 0 is answered \<^verbatim>\<open>400 Valid quantity is required\<close>
  and changes nothing.
\<close>

theorem adjustStock_set_zero_rejected:
  "adjustStock None shop ''p1'' \<lparr>sr_quantity = Some 0, sr_operation = ''set'', sr_reason = None\<rparr> ''u1''
     = (Failure 400 ''Valid quantity is required'', shop)"
  by (simp add: run_defs)

end
